theory Spec2Isabelle
  imports Complex_Main
begin

section \<open>Data model\<close>

text \<open>
  The relational store behind the ORM is a record of tables. A table that the handlers
  read by primary key is a map from the key to the row; the orders and the notifications
  are lists of rows, in the order of their creation. A string is the list of the bytes of
  its UTF-8 encoding; identifiers are strings. A stock level or a quantity is an integer.
\<close>

type_synonym ident = string

text \<open>
  A JavaScript number that holds money is a double: a finite value, an infinity or
  \<^verbatim>\<open>NaN\<close>. What \<^verbatim>\<open>*\<close> and \<^verbatim>\<open>+\<close> make of two doubles (rounding,
  overflow) is not computed here: both operations are taken from the runtime.
\<close>

datatype number = Finite real | PlusInfinity | MinusInfinity | NaN

text \<open>The payload of a signed token: \<^verbatim>\<open>{id, email, role}\<close>.\<close>

record decoded =
  d_id :: ident
  d_email :: string
  d_role :: string

text \<open>
  A stored wishlist is a JSON column: the seed writes a JSON string, the toggle writes an
  array of ids.
\<close>

datatype json = JNull | JString string | JArray "string list" | JOther

record user_row =
  u_email :: string
  u_wishlist :: json

record owner_row =
  ow_email :: string
  ow_approved :: bool

record admin_row =
  ad_email :: string
  ad_role :: string

record shop =
  s_name :: string
  s_ownerId :: ident

record product =
  p_name :: string
  p_price :: number
  p_stock :: int
  p_shopId :: ident
  p_status :: string

record line_item =
  li_productId :: ident
  li_quantity :: int

record order_item =
  oi_productId :: ident
  oi_quantity :: int
  oi_price :: number

record order =
  o_id :: ident
  o_userId :: ident
  o_total :: number
  o_status :: string
  o_receiptNumber :: "string option"
  o_completedAt :: "string option"
  o_shippingAddress :: string
  o_shippingCity :: string
  o_shippingZip :: string
  o_items :: "order_item list"

record notification =
  n_userId :: "ident option"
  n_ownerId :: "ident option"
  n_adminId :: "ident option"
  n_type :: string
  n_title :: string
  n_message :: string
  n_link :: string

record db =
  users :: "ident \<rightharpoonup> user_row"
  owners :: "ident \<rightharpoonup> owner_row"
  admins :: "ident \<rightharpoonup> admin_row"
  shops :: "ident \<rightharpoonup> shop"
  products :: "ident \<rightharpoonup> product"
  orders :: "order list"
  notifications :: "notification list"

text \<open>An exception object, as far as the central error translator reads it.\<close>

record js_error =
  err_code :: string
  err_name :: string
  err_statusCode :: "nat option"
  err_message :: string
  err_target :: "string option"

text \<open>
  What the handlers cannot compute themselves: the token verification of the
  \<^verbatim>\<open>jsonwebtoken\<close> library (\<open>None\<close> when it throws), whether the store refuses
  the write of a notification (and the exception it then raises), the product and the sum
  of two numbers, the locale formatting of a number and the JSON parser (\<open>None\<close> when
  it throws).
\<close>

record env =
  verifyToken :: "string \<Rightarrow> decoded option"
  notification_failure :: "notification \<Rightarrow> js_error option"
  num_times :: "number \<Rightarrow> number \<Rightarrow> number"
  num_plus :: "number \<Rightarrow> number \<Rightarrow> number"
  toLocaleString :: "number \<Rightarrow> string"
  JSON_parse :: "string \<Rightarrow> json option"

text \<open>
  A request: the exception of the body parser when it could not read the body (the fields
  of the body then mean nothing), the credential transports, the route parameter, the
  fields of the JSON body that the modelled handlers read (a missing string field is the
  empty string: the validators used on these fields reject both alike), and the values the
  runtime hands to the handler while it runs: the primary key the ORM generates for a
  created order, the ISO timestamp of \<^verbatim>\<open>new Date()\<close> and the text of
  \<^verbatim>\<open>Math.random().toString(36)\<close>.
\<close>

record request =
  body_error :: "js_error option"
  cookie_token :: "string option"
  authorization :: "string option"
  param_id :: ident
  body_items :: "line_item list"
  body_shippingAddress :: string
  body_shippingCity :: string
  body_shippingZip :: string
  body_status :: string
  body_productId :: string
  body_reason :: "string option"
  new_id :: ident
  now_iso :: string
  random36 :: string

text \<open>The shapes of JSON the modelled handlers answer with.\<close>

datatype json_body =
    Error string
  | ErrorCode string string
  | ErrorField string string
  | ErrorReceipt string string
  | ValidationFailed "string list"
  | OrderBody order
  | ConfirmBody string string order
  | WishlistBody "string list"
  | ProductBody string product

record response =
  status :: nat
  body :: json_body

text \<open>The identity a middleware attaches as \<^verbatim>\<open>req.user\<close>.\<close>

record identity =
  i_id :: ident
  i_email :: string
  i_role :: string

definition reply :: "nat \<Rightarrow> json_body \<Rightarrow> response" where
  "reply c b = \<lparr>status = c, body = b\<rparr>"

section \<open>The error translator (middleware/errorHandler.js)\<close>

definition errorHandler :: "js_error \<Rightarrow> response" where
  "errorHandler err =
     (if err_code err = ''P2002'' then
        reply 400 (ErrorField ''A record with this value already exists''
          (case err_target err of
             None \<Rightarrow> ''unknown''
           | Some t \<Rightarrow> if t = [] then ''unknown'' else t))
      else if err_code err = ''P2025'' then reply 404 (Error ''Record not found'')
      else if err_name err = ''ValidationError'' then reply 400 (Error (err_message err))
      else if err_name err = ''JsonWebTokenError'' then reply 401 (Error ''Invalid token'')
      else if err_name err = ''TokenExpiredError'' then reply 401 (Error ''Token expired'')
      else
        reply (case err_statusCode err of
                 None \<Rightarrow> 500
               | Some c \<Rightarrow> if c = 0 then 500 else c)
          (Error (if err_message err = [] then ''Internal server error'' else err_message err)))"

text \<open>The exception of reading a property of \<^verbatim>\<open>null\<close>.\<close>

definition TypeError :: js_error where
  "TypeError = \<lparr>err_code = [], err_name = ''TypeError'', err_statusCode = None,
     err_message = ''Cannot read properties of null'', err_target = None\<rparr>"

text \<open>The exceptions of the ORM: a unique constraint violated, a record not found.\<close>

definition P2002 :: js_error where
  "P2002 = \<lparr>err_code = ''P2002'', err_name = ''PrismaClientKnownRequestError'',
     err_statusCode = None, err_message = ''Unique constraint failed'', err_target = Some ''id''\<rparr>"

definition P2025 :: js_error where
  "P2025 = \<lparr>err_code = ''P2025'', err_name = ''PrismaClientKnownRequestError'',
     err_statusCode = None, err_message = ''Record to update not found'', err_target = None\<rparr>"

section \<open>Identity resolution and the authorization gate (middleware/auth.js)\<close>

definition bearer :: "request \<Rightarrow> string option" where
  "bearer req =
     (case authorization req of
        None \<Rightarrow> None
      | Some authHeader \<Rightarrow>
          if authHeader \<noteq> [] \<and> take 7 authHeader = ''Bearer ''
          then Some (drop 7 authHeader) else None)"

definition extractToken :: "request \<Rightarrow> string option" where
  "extractToken req =
     (case cookie_token req of
        None \<Rightarrow> bearer req
      | Some t \<Rightarrow> if t \<noteq> [] then Some t else bearer req)"

definition authenticate :: "env \<Rightarrow> db \<Rightarrow> request \<Rightarrow> response + identity" where
  "authenticate e st req =
     (case extractToken req of
        None \<Rightarrow> Inl (reply 401 (Error ''Authentication required''))
      | Some token \<Rightarrow>
          if token = [] then Inl (reply 401 (Error ''Authentication required''))
          else
            (case verifyToken e token of
               None \<Rightarrow> Inl (reply 401 (Error ''Invalid or expired token''))
             | Some d \<Rightarrow> Inr \<lparr>i_id = d_id d, i_email = d_email d, i_role = d_role d\<rparr>))"

definition authenticateUser :: "env \<Rightarrow> db \<Rightarrow> request \<Rightarrow> response + identity" where
  "authenticateUser e st req =
     (case extractToken req of
        None \<Rightarrow> Inl (reply 401 (Error ''Authentication required''))
      | Some token \<Rightarrow>
          if token = [] then Inl (reply 401 (Error ''Authentication required''))
          else
            (case verifyToken e token of
               None \<Rightarrow> Inl (reply 401 (Error ''Invalid or expired token''))
             | Some d \<Rightarrow>
                 if d_role d \<noteq> ''user'' then Inl (reply 403 (Error ''User access required''))
                 else
                   (case users st (d_id d) of
                      None \<Rightarrow> Inl (reply 401 (Error ''User not found''))
                    | Some u \<Rightarrow>
                        Inr \<lparr>i_id = d_id d, i_email = u_email u, i_role = d_role d\<rparr>)))"

definition authenticateOwner :: "env \<Rightarrow> db \<Rightarrow> request \<Rightarrow> response + identity" where
  "authenticateOwner e st req =
     (case extractToken req of
        None \<Rightarrow> Inl (reply 401 (Error ''Authentication required''))
      | Some token \<Rightarrow>
          if token = [] then Inl (reply 401 (Error ''Authentication required''))
          else
            (case verifyToken e token of
               None \<Rightarrow> Inl (reply 401 (Error ''Invalid or expired token''))
             | Some d \<Rightarrow>
                 if d_role d \<noteq> ''owner'' then Inl (reply 403 (Error ''Owner access required''))
                 else
                   (case owners st (d_id d) of
                      None \<Rightarrow> Inl (reply 401 (Error ''Owner not found''))
                    | Some ow \<Rightarrow>
                        if \<not> ow_approved ow
                        then Inl (reply 403
                               (ErrorCode ''Your account is pending approval.'' ''PENDING_APPROVAL''))
                        else Inr \<lparr>i_id = d_id d, i_email = ow_email ow, i_role = d_role d\<rparr>)))"

definition authenticateAdmin :: "env \<Rightarrow> db \<Rightarrow> request \<Rightarrow> response + identity" where
  "authenticateAdmin e st req =
     (case extractToken req of
        None \<Rightarrow> Inl (reply 401 (Error ''Authentication required''))
      | Some token \<Rightarrow>
          if token = [] then Inl (reply 401 (Error ''Authentication required''))
          else
            (case verifyToken e token of
               None \<Rightarrow> Inl (reply 401 (Error ''Invalid or expired token''))
             | Some d \<Rightarrow>
                 if d_role d \<noteq> ''admin'' then Inl (reply 403 (Error ''Admin access required''))
                 else
                   (case admins st (d_id d) of
                      None \<Rightarrow> Inl (reply 401 (Error ''Admin not found''))
                    | Some a \<Rightarrow>
                        Inr \<lparr>i_id = d_id d, i_email = ad_email a, i_role = ad_role a\<rparr>)))"

text \<open>
  A route \<^verbatim>\<open>router.METHOD(path, middleware, ...rest)\<close>: the middleware answers
  itself, or calls \<^verbatim>\<open>next()\<close> with the identity attached, and only then the
  rest of the chain runs. The middleware reads the store and never writes it.
\<close>

type_synonym handler = "identity \<Rightarrow> db \<Rightarrow> request \<Rightarrow> response \<times> db"

definition route ::
  "(env \<Rightarrow> db \<Rightarrow> request \<Rightarrow> response + identity) \<Rightarrow> env \<Rightarrow> handler \<Rightarrow> db \<Rightarrow> request
    \<Rightarrow> response \<times> db" where
  "route middleware e rest st req =
     (case middleware e st req of
        Inl answer \<Rightarrow> (answer, st)
      | Inr user \<Rightarrow> rest user st req)"

text \<open>
  The application (app.js) runs the JSON body parser before every router. When the parser
  cannot read the body it passes its exception on, past the routers, to the error
  translator.
\<close>

definition app :: "(db \<Rightarrow> request \<Rightarrow> response \<times> db) \<Rightarrow> db \<Rightarrow> request \<Rightarrow> response \<times> db" where
  "app router st req =
     (case body_error req of
        Some err \<Rightarrow> (errorHandler err, st)
      | None \<Rightarrow> router st req)"

section \<open>Strings of the runtime\<close>

text \<open>
  \<^verbatim>\<open>trim()\<close> removes the white space at both ends: the characters that
  \<^verbatim>\<open>\s\<close> matches, which are the six of ASCII, U+00A0, U+1680, U+2000 to U+200A,
  U+2028, U+2029, U+202F, U+205F, U+3000 and U+FEFF, here each as its UTF-8 bytes. No
  encoding of one of them is the beginning or the end of the encoding of another
  character, so they are removed as byte sequences. \<^verbatim>\<open>slice(-n)\<close> keeps the last
  \<open>n\<close> characters (the whole string when it is shorter) and
  \<^verbatim>\<open>toUpperCase()\<close> maps the letters a to z to A to Z; other characters of the
  strings met here are left alone.
\<close>

definition white_space_codes :: "string list" where
  "white_space_codes =
     [[CHR 0x09], [CHR 0x0A], [CHR 0x0B], [CHR 0x0C], [CHR 0x0D], [CHR 0x20],
      [CHR 0xC2, CHR 0xA0],
      [CHR 0xE1, CHR 0x9A, CHR 0x80],
      [CHR 0xE2, CHR 0x80, CHR 0x80], [CHR 0xE2, CHR 0x80, CHR 0x81],
      [CHR 0xE2, CHR 0x80, CHR 0x82], [CHR 0xE2, CHR 0x80, CHR 0x83],
      [CHR 0xE2, CHR 0x80, CHR 0x84], [CHR 0xE2, CHR 0x80, CHR 0x85],
      [CHR 0xE2, CHR 0x80, CHR 0x86], [CHR 0xE2, CHR 0x80, CHR 0x87],
      [CHR 0xE2, CHR 0x80, CHR 0x88], [CHR 0xE2, CHR 0x80, CHR 0x89],
      [CHR 0xE2, CHR 0x80, CHR 0x8A],
      [CHR 0xE2, CHR 0x80, CHR 0xA8], [CHR 0xE2, CHR 0x80, CHR 0xA9],
      [CHR 0xE2, CHR 0x80, CHR 0xAF],
      [CHR 0xE2, CHR 0x81, CHR 0x9F],
      [CHR 0xE3, CHR 0x80, CHR 0x80],
      [CHR 0xEF, CHR 0xBB, CHR 0xBF]]"

text \<open>The code among \<open>codes\<close> that a string begins with, if there is one.\<close>

definition leading_code :: "string list \<Rightarrow> string \<Rightarrow> string option" where
  "leading_code codes s = find (\<lambda>w. w \<noteq> [] \<and> take (length w) s = w) codes"

function strip :: "string list \<Rightarrow> string \<Rightarrow> string" where
  "strip codes s =
     (case leading_code codes s of
        None \<Rightarrow> s
      | Some w \<Rightarrow> strip codes (drop (length w) s))"
  by pat_completeness auto
termination
proof (relation "measure (\<lambda>(codes, s). length s)")
  show "wf (measure (\<lambda>(codes, s). length s))" by simp
next
  fix codes :: "string list" and s w :: string
  assume "leading_code codes s = Some w"
  then have "w \<noteq> []" and "take (length w) s = w"
    by (auto simp: leading_code_def find_Some_iff)
  then have "s \<noteq> []" by auto
  with \<open>w \<noteq> []\<close> show "((codes, drop (length w) s), (codes, s)) \<in> measure (\<lambda>(codes, s). length s)"
    by (cases w) auto
qed

definition trim :: "string \<Rightarrow> string" where
  "trim s = rev (strip (map rev white_space_codes) (rev (strip white_space_codes s)))"

definition slice_last :: "nat \<Rightarrow> string \<Rightarrow> string" where
  "slice_last n s = drop (length s - n) s"

definition upper_char :: "char \<Rightarrow> char" where
  "upper_char c =
     (let n = (of_char c :: nat) in if 97 \<le> n \<and> n \<le> 122 then char_of (n - 32) else c)"

definition toUpperCase :: "string \<Rightarrow> string" where
  "toUpperCase s = map upper_char s"

section \<open>Validation (middleware/validate.js)\<close>

text \<open>
  A validation chain yields the messages of its failed rules; \<^verbatim>\<open>validate\<close>
  answers 400 when there is one and calls \<^verbatim>\<open>next()\<close> otherwise. The field
  paths that express-validator adds to each message are left out.
\<close>

definition validate :: "string list \<Rightarrow> handler \<Rightarrow> handler" where
  "validate errors rest user st req =
     (if errors \<noteq> [] then (reply 400 (ValidationFailed errors), st) else rest user st req)"

section \<open>Notification service (lib/notificationService.js)\<close>

text \<open>\<^verbatim>\<open>prisma.notification.create\<close>: the row is appended, or the write throws.\<close>

definition notification_create :: "env \<Rightarrow> db \<Rightarrow> notification \<Rightarrow> js_error + db" where
  "notification_create e st n =
     (case notification_failure e n of
        Some err \<Rightarrow> Inl err
      | None \<Rightarrow> Inr (st\<lparr>notifications := notifications st @ [n]\<rparr>))"

text \<open>
  \<^verbatim>\<open>notifyUser\<close> and \<^verbatim>\<open>notifyOwner\<close> catch the exception of the write (and
  log it): the caller gets the store back, with or without the row.
\<close>

definition notifyUser :: "env \<Rightarrow> db \<Rightarrow> ident \<Rightarrow> string \<Rightarrow> string \<Rightarrow> string \<Rightarrow> string \<Rightarrow> db" where
  "notifyUser e st userId type title message link =
     (case notification_create e st
             \<lparr>n_userId = Some userId, n_ownerId = None, n_adminId = None, n_type = type,
               n_title = title, n_message = message, n_link = link\<rparr> of
        Inl err \<Rightarrow> st
      | Inr st' \<Rightarrow> st')"

definition notifyOwner :: "env \<Rightarrow> db \<Rightarrow> ident \<Rightarrow> string \<Rightarrow> string \<Rightarrow> string \<Rightarrow> string \<Rightarrow> db" where
  "notifyOwner e st ownerId type title message link =
     (case notification_create e st
             \<lparr>n_userId = None, n_ownerId = Some ownerId, n_adminId = None, n_type = type,
               n_title = title, n_message = message, n_link = link\<rparr> of
        Inl err \<Rightarrow> st
      | Inr st' \<Rightarrow> st')"

text \<open>The currency sign, as the bytes of the literal in the source file.\<close>

definition currency_sign :: string where
  "currency_sign = [CHR 0xC3, CHR 0xA2, CHR 0xE2, CHR 0x80, CHR 0x9A, CHR 0xC2, CHR 0xB1]"

definition notifyOrderCreated :: "env \<Rightarrow> db \<Rightarrow> order \<Rightarrow> ident \<Rightarrow> db" where
  "notifyOrderCreated e st ord shopOwnerId =
     notifyOwner e st shopOwnerId ''order'' ''New Order Received''
       (''New order #'' @ slice_last 8 (o_id ord) @ '' received for '' @ currency_sign @
          toLocaleString e (o_total ord))
       ''/dashboard/orders''"

definition statusMessages :: "string \<Rightarrow> string option" where
  "statusMessages s =
     (if s = ''processing'' then Some ''Your order is now being processed''
      else if s = ''shipped'' then Some ''Your order has been shipped''
      else if s = ''delivered'' then Some ''Your order has been delivered''
      else if s = ''cancelled'' then Some ''Your order has been cancelled''
      else None)"

definition notifyOrderStatusChanged :: "env \<Rightarrow> db \<Rightarrow> order \<Rightarrow> string \<Rightarrow> db" where
  "notifyOrderStatusChanged e st ord newStatus =
     notifyUser e st (o_userId ord) ''order''
       (''Order '' @ toUpperCase (take 1 newStatus) @ drop 1 newStatus)
       (case statusMessages newStatus of
          Some m \<Rightarrow> m
        | None \<Rightarrow> ''Your order status changed to '' @ newStatus)
       ''/profile/orders''"

section \<open>Order routes (routes/orders.js)\<close>

subsection \<open>The ORM calls on orders and products\<close>

definition order_findUnique :: "db \<Rightarrow> ident \<Rightarrow> order option" where
  "order_findUnique st i = find (\<lambda>ord. o_id ord = i) (orders st)"

text \<open>
  Modelled from the spec: the Prisma schema is not among the sources. An Order has a
  unique identifier, so creating a row under an identifier in use violates the
  constraint.
\<close>

definition order_create :: "db \<Rightarrow> order \<Rightarrow> js_error + db" where
  "order_create st ord =
     (case order_findUnique st (o_id ord) of
        Some other \<Rightarrow> Inl P2002
      | None \<Rightarrow> Inr (st\<lparr>orders := orders st @ [ord]\<rparr>))"

definition order_update :: "db \<Rightarrow> ident \<Rightarrow> (order \<Rightarrow> order) \<Rightarrow> js_error + (order \<times> db)" where
  "order_update st i change =
     (case order_findUnique st i of
        None \<Rightarrow> Inl P2025
      | Some ord \<Rightarrow>
          Inr (change ord,
               st\<lparr>orders := map (\<lambda>row. if o_id row = i then change row else row) (orders st)\<rparr>))"

subsection \<open>POST /api/orders\<close>

text \<open>
  \<^verbatim>\<open>isInt({ min: 1 })\<close> reads the number as text: it accepts the integers from 1
  on whose text is a plain sequence of digits, which ends below \<open>10 ^ 21\<close>, where the
  text of a number turns to exponent notation.
\<close>

definition createOrderValidation :: "request \<Rightarrow> string list" where
  "createOrderValidation req =
     (if body_items req = [] then [''Order must have at least one item''] else []) @
     concat (map (\<lambda>item. if li_productId item = [] then [''Product ID is required''] else [])
       (body_items req)) @
     concat (map (\<lambda>item. if li_quantity item < 1 \<or> 10 ^ 21 \<le> li_quantity item
                       then [''Quantity must be at least 1''] else [])
       (body_items req)) @
     (if trim (body_shippingAddress req) = [] then [''Shipping address is required''] else []) @
     (if trim (body_shippingCity req) = [] then [''Shipping city is required''] else []) @
     (if trim (body_shippingZip req) = [] then [''Shipping ZIP is required''] else [])"

text \<open>
  The first loop: every line item is looked up and checked against the stored stock, the
  running total (from 0, with the sum and the product of the runtime) and the order items
  are accumulated; nothing is written.
\<close>

fun check_items ::
  "env \<Rightarrow> db \<Rightarrow> line_item list \<Rightarrow> number \<Rightarrow> order_item list
    \<Rightarrow> response + (number \<times> order_item list)" where
  "check_items e st [] running orderItems = Inr (running, orderItems)"
| "check_items e st (item # rest) running orderItems =
     (case products st (li_productId item) of
        None \<Rightarrow> Inl (reply 404 (Error (''Product '' @ li_productId item @ '' not found'')))
      | Some product \<Rightarrow>
          if p_stock product < li_quantity item
          then Inl (reply 400 (Error (''Insufficient stock for '' @ p_name product)))
          else check_items e st rest
                 (num_plus e running
                    (num_times e (p_price product) (Finite (real_of_int (li_quantity item)))))
                 (orderItems @
                    [\<lparr>oi_productId = li_productId item, oi_quantity = li_quantity item,
                      oi_price = p_price product\<rparr>]))"

text \<open>
  The second loop, after the order is created: one \<^verbatim>\<open>product.update\<close> with a
  decrement per line item. An update of a missing product throws, and the writes made
  before it stay.
\<close>

fun decrement_stock :: "db \<Rightarrow> line_item list \<Rightarrow> js_error option \<times> db" where
  "decrement_stock st [] = (None, st)"
| "decrement_stock st (item # rest) =
     (case products st (li_productId item) of
        None \<Rightarrow> (Some P2025, st)
      | Some product \<Rightarrow>
          decrement_stock
            (st\<lparr>products := (products st)(li_productId item \<mapsto>
                  product\<lparr>p_stock := p_stock product - li_quantity item\<rparr>)\<rparr>)
            rest)"

text \<open>A JavaScript \<^verbatim>\<open>Set\<close> of ids: \<^verbatim>\<open>add\<close> keeps the insertion order.\<close>

definition set_add :: "ident list \<Rightarrow> ident \<Rightarrow> ident list" where
  "set_add s x = (if x \<in> set s then s else s @ [x])"

text \<open>
  The third loop runs over the items of the created order with their products joined in
  (\<open>include\<close>, read when the order was created) and looks each shop up.
\<close>

fun shopOwnerIds :: "db \<Rightarrow> product option list \<Rightarrow> ident list \<Rightarrow> ident list" where
  "shopOwnerIds st [] acc = acc"
| "shopOwnerIds st (joined # rest) acc =
     (case joined of
        None \<Rightarrow> shopOwnerIds st rest acc
      | Some product \<Rightarrow>
          if p_shopId product = [] then shopOwnerIds st rest acc
          else
            (case shops st (p_shopId product) of
               None \<Rightarrow> shopOwnerIds st rest acc
             | Some shop \<Rightarrow>
                 if s_ownerId shop = [] then shopOwnerIds st rest acc
                 else shopOwnerIds st rest (set_add acc (s_ownerId shop))))"

text \<open>
  Modelled from the spec: the columns of an Order that the handler does not set take the
  defaults of the Prisma schema, which is not among the sources: a new order is
  \<open>pending\<close> and has neither a receipt identifier nor a completion time.
\<close>

definition create_order :: "env \<Rightarrow> handler" where
  "create_order e user st req =
     (case check_items e st (body_items req) (Finite 0) [] of
        Inl answer \<Rightarrow> (answer, st)
      | Inr (order_total, orderItems) \<Rightarrow>
          (let ord = \<lparr>o_id = new_id req, o_userId = i_id user, o_total = order_total,
                       o_status = ''pending'', o_receiptNumber = None, o_completedAt = None,
                       o_shippingAddress = trim (body_shippingAddress req),
                       o_shippingCity = trim (body_shippingCity req),
                       o_shippingZip = trim (body_shippingZip req),
                       o_items = orderItems\<rparr>
           in case order_create st ord of
                Inl err \<Rightarrow> (errorHandler err, st)
              | Inr st1 \<Rightarrow>
                  (let joined = map (\<lambda>item. products st1 (oi_productId item)) (o_items ord)
                   in case decrement_stock st1 (body_items req) of
                        (Some err, st2) \<Rightarrow> (errorHandler err, st2)
                      | (None, st2) \<Rightarrow>
                          (reply 201 (OrderBody ord),
                           foldl (\<lambda>s ownerId. notifyOrderCreated e s ord ownerId) st2
                             (shopOwnerIds st2 joined [])))))"

definition post_order :: "env \<Rightarrow> db \<Rightarrow> request \<Rightarrow> response \<times> db" where
  "post_order e st req =
     route authenticateUser e (validate (createOrderValidation req) (create_order e)) st req"

subsection \<open>PUT /api/orders/:id/cancel\<close>

definition cancel_order :: handler where
  "cancel_order user st req =
     (case order_findUnique st (param_id req) of
        None \<Rightarrow> (reply 404 (Error ''Order not found''), st)
      | Some ord \<Rightarrow>
          if o_userId ord \<noteq> i_id user then (reply 403 (Error ''Access denied''), st)
          else if o_status ord \<noteq> ''pending''
          then (reply 400 (Error ''Only pending orders can be cancelled''), st)
          else
            (case order_update st (param_id req) (\<lambda>row. row\<lparr>o_status := ''cancelled''\<rparr>) of
               Inl err \<Rightarrow> (errorHandler err, st)
             | Inr (updatedOrder, st1) \<Rightarrow> (reply 200 (OrderBody updatedOrder), st1)))"

definition put_cancel :: "env \<Rightarrow> db \<Rightarrow> request \<Rightarrow> response \<times> db" where
  "put_cancel e st req = route authenticateUser e cancel_order st req"

subsection \<open>PUT /api/orders/:id/status\<close>

definition accepted_statuses :: "string list" where
  "accepted_statuses = [''pending'', ''processing'', ''shipped'', ''delivered'', ''cancelled'']"

definition statusValidation :: "request \<Rightarrow> string list" where
  "statusValidation req =
     (if body_status req \<in> set accepted_statuses then [] else [''Invalid status''])"

text \<open>
  \<^verbatim>\<open>order.items.some((item) => item.product.shop.ownerId === req.user.id)\<close>: the
  items are visited in order until one matches; reading the shop of an item whose product
  or shop is not joined in throws.
\<close>

fun ownsProduct :: "db \<Rightarrow> ident \<Rightarrow> order_item list \<Rightarrow> js_error + bool" where
  "ownsProduct st uid [] = Inr False"
| "ownsProduct st uid (item # rest) =
     (case products st (oi_productId item) of
        None \<Rightarrow> Inl TypeError
      | Some product \<Rightarrow>
          (case shops st (p_shopId product) of
             None \<Rightarrow> Inl TypeError
           | Some shop \<Rightarrow>
               if s_ownerId shop = uid then Inr True else ownsProduct st uid rest))"

definition update_status :: "env \<Rightarrow> handler" where
  "update_status e user st req =
     (case order_findUnique st (param_id req) of
        None \<Rightarrow> (reply 404 (Error ''Order not found''), st)
      | Some ord \<Rightarrow>
          (case ownsProduct st (i_id user) (o_items ord) of
             Inl err \<Rightarrow> (errorHandler err, st)
           | Inr owns \<Rightarrow>
               if \<not> owns then (reply 403 (Error ''Access denied''), st)
               else
                 (case order_update st (param_id req)
                         (\<lambda>row. row\<lparr>o_status := body_status req\<rparr>) of
                    Inl err \<Rightarrow> (errorHandler err, st)
                  | Inr (updatedOrder, st1) \<Rightarrow>
                      (reply 200 (OrderBody updatedOrder),
                       notifyOrderStatusChanged e st1 updatedOrder (body_status req)))))"

definition put_status :: "env \<Rightarrow> db \<Rightarrow> request \<Rightarrow> response \<times> db" where
  "put_status e st req =
     route authenticateOwner e (validate (statusValidation req) (update_status e)) st req"

subsection \<open>PUT /api/orders/:id/confirm\<close>

text \<open>
  \<^verbatim>\<open>RCP-${dateStr}-${randomPart}\<close>, with
  \<^verbatim>\<open>dateStr = now.toISOString().slice(0, 10).replace(/-/g, "")\<close> and
  \<^verbatim>\<open>randomPart = Math.random().toString(36).substring(2, 10).toUpperCase()\<close>.
\<close>

definition receipt_of :: "request \<Rightarrow> string" where
  "receipt_of req =
     ''RCP-'' @ filter (\<lambda>c. c \<noteq> CHR ''-'') (take 10 (now_iso req)) @ ''-'' @
       toUpperCase (take 8 (drop 2 (random36 req)))"

text \<open>
  The owners of the shops of the items, read from the order as it was loaded (product and
  shop joined in), in a \<^verbatim>\<open>Set\<close>.
\<close>

fun confirm_owner_ids :: "db \<Rightarrow> order_item list \<Rightarrow> ident list \<Rightarrow> ident list" where
  "confirm_owner_ids st [] acc = acc"
| "confirm_owner_ids st (item # rest) acc =
     (case products st (oi_productId item) of
        None \<Rightarrow> confirm_owner_ids st rest acc
      | Some product \<Rightarrow>
          (case shops st (p_shopId product) of
             None \<Rightarrow> confirm_owner_ids st rest acc
           | Some shop \<Rightarrow>
               if s_ownerId shop = [] then confirm_owner_ids st rest acc
               else confirm_owner_ids st rest (set_add acc (s_ownerId shop))))"

text \<open>
  The loop of direct \<^verbatim>\<open>prisma.notification.create\<close> calls: the first write that
  throws ends it, and the exception leaves the handler.
\<close>

fun create_notifications :: "env \<Rightarrow> db \<Rightarrow> notification list \<Rightarrow> js_error option \<times> db" where
  "create_notifications e st [] = (None, st)"
| "create_notifications e st (n # rest) =
     (case notification_create e st n of
        Inl err \<Rightarrow> (Some err, st)
      | Inr st1 \<Rightarrow> create_notifications e st1 rest)"

definition completed_notification :: "order \<Rightarrow> string \<Rightarrow> ident \<Rightarrow> notification" where
  "completed_notification ord receiptNumber ownerId =
     \<lparr>n_userId = None, n_ownerId = Some ownerId, n_adminId = None, n_type = ''order'',
       n_title = ''Order Completed'',
       n_message = ''Order #'' @ slice_last 6 (o_id ord) @
          '' has been confirmed by the customer. Receipt: '' @ receiptNumber,
       n_link = ''/orders''\<rparr>"

text \<open>A string that a condition reads as true: present and not empty.\<close>

definition truthy :: "string option \<Rightarrow> string option" where
  "truthy v = (case v of None \<Rightarrow> None | Some s \<Rightarrow> if s = [] then None else Some s)"

definition confirm_order :: "env \<Rightarrow> handler" where
  "confirm_order e user st req =
     (case order_findUnique st (param_id req) of
        None \<Rightarrow> (reply 404 (Error ''Order not found''), st)
      | Some ord \<Rightarrow>
          if o_userId ord \<noteq> i_id user then (reply 403 (Error ''Access denied''), st)
          else if o_status ord \<noteq> ''delivered''
          then (reply 400 (Error ''Can only confirm delivered orders''), st)
          else
            (case truthy (o_receiptNumber ord) of
               Some existing \<Rightarrow>
                 (reply 400 (ErrorReceipt ''Order has already been confirmed'' existing), st)
             | None \<Rightarrow>
                 (let receiptNumber = receipt_of req
                  in case order_update st (param_id req)
                            (\<lambda>row. row\<lparr>o_receiptNumber := Some receiptNumber,
                                         o_completedAt := Some (now_iso req),
                                         o_status := ''completed''\<rparr>) of
                       Inl err \<Rightarrow> (errorHandler err, st)
                     | Inr (updatedOrder, st1) \<Rightarrow>
                         (case create_notifications e st1
                                 (map (completed_notification ord receiptNumber)
                                    (confirm_owner_ids st (o_items ord) [])) of
                            (Some err, st2) \<Rightarrow> (errorHandler err, st2)
                          | (None, st2) \<Rightarrow>
                              (reply 200
                                 (ConfirmBody ''Order confirmed successfully'' receiptNumber
                                    updatedOrder),
                               st2)))))"

definition put_confirm :: "env \<Rightarrow> db \<Rightarrow> request \<Rightarrow> response \<times> db" where
  "put_confirm e st req = route authenticateUser e (confirm_order e) st req"

subsection \<open>The mutating endpoints of the order router\<close>

datatype endpoint = PostOrder | PutCancel | PutStatus | PutConfirm

fun orders_router :: "env \<Rightarrow> endpoint \<Rightarrow> db \<Rightarrow> request \<Rightarrow> response \<times> db" where
  "orders_router e PostOrder st req = post_order e st req"
| "orders_router e PutCancel st req = put_cancel e st req"
| "orders_router e PutStatus st req = put_status e st req"
| "orders_router e PutConfirm st req = put_confirm e st req"

text \<open>A sequence of requests, each handled to its end before the next.\<close>

fun serve :: "env \<Rightarrow> db \<Rightarrow> (endpoint \<times> request) list \<Rightarrow> db" where
  "serve e st [] = st"
| "serve e st ((ep, req) # rest) = serve e (snd (orders_router e ep st req)) rest"

section \<open>Wishlist toggle (routes/users.js)\<close>

text \<open>
  The stored value is read as a list of ids: a string is parsed, and anything that is not
  an array in the end is the empty list.
\<close>

definition currentWishlist :: "env \<Rightarrow> json \<Rightarrow> string list" where
  "currentWishlist e w =
     (case w of
        JNull \<Rightarrow> []
      | JString s \<Rightarrow>
          if s = [] then []
          else (case JSON_parse e s of
                  Some (JArray ids) \<Rightarrow> ids
                | _ \<Rightarrow> [])
      | JArray ids \<Rightarrow> ids
      | JOther \<Rightarrow> [])"

definition toggle :: "string list \<Rightarrow> string \<Rightarrow> string list" where
  "toggle wishlist productId =
     (if productId \<in> set wishlist then filter (\<lambda>i. i \<noteq> productId) wishlist
      else wishlist @ [productId])"

definition wishlistValidation :: "request \<Rightarrow> string list" where
  "wishlistValidation req = (if body_productId req = [] then [''Product ID is required''] else [])"

definition update_wishlist :: "env \<Rightarrow> handler" where
  "update_wishlist e user st req =
     (case users st (i_id user) of
        None \<Rightarrow> (errorHandler TypeError, st)
      | Some u \<Rightarrow>
          (let newWishlist = toggle (currentWishlist e (u_wishlist u)) (body_productId req)
           in (reply 200 (WishlistBody newWishlist),
               st\<lparr>users := (users st)(i_id user \<mapsto> u\<lparr>u_wishlist := JArray newWishlist\<rparr>)\<rparr>)))"

definition put_wishlist :: "env \<Rightarrow> db \<Rightarrow> request \<Rightarrow> response \<times> db" where
  "put_wishlist e st req =
     route authenticateUser e (validate (wishlistValidation req) (update_wishlist e)) st req"

text \<open>The wishlist of a user as the handlers read it (no row: no wishlist).\<close>

definition wishlist_of :: "env \<Rightarrow> db \<Rightarrow> ident \<Rightarrow> string list" where
  "wishlist_of e st uid =
     (case users st uid of None \<Rightarrow> [] | Some u \<Rightarrow> currentWishlist e (u_wishlist u))"

section \<open>Product moderation (routes/admin.js)\<close>

text \<open>
  \<^verbatim>\<open>prisma.product.update\<close> throws when the product is missing; the notification
  is written by a direct \<^verbatim>\<open>prisma.notification.create\<close>.
\<close>

definition approve_product :: "env \<Rightarrow> handler" where
  "approve_product e user st req =
     (case products st (param_id req) of
        None \<Rightarrow> (errorHandler P2025, st)
      | Some old \<Rightarrow>
          (let product = old\<lparr>p_status := ''approved''\<rparr>;
               st1 = st\<lparr>products := (products st)(param_id req \<mapsto> product)\<rparr>
           in case shops st1 (p_shopId product) of
                None \<Rightarrow> (errorHandler TypeError, st1)
              | Some shop \<Rightarrow>
                  (case notification_create e st1
                          \<lparr>n_userId = None, n_ownerId = Some (s_ownerId shop), n_adminId = None,
                            n_type = ''approval'', n_title = ''Product Approved'',
                            n_message = ''Your product \"'' @ p_name product @
                              ''\" has been approved and is now visible to customers.'',
                            n_link = ''/products''\<rparr> of
                     Inl err \<Rightarrow> (errorHandler err, st1)
                   | Inr st2 \<Rightarrow>
                       (reply 200 (ProductBody ''Product approved successfully'' product), st2))))"

definition reject_product :: "env \<Rightarrow> handler" where
  "reject_product e user st req =
     (case products st (param_id req) of
        None \<Rightarrow> (errorHandler P2025, st)
      | Some old \<Rightarrow>
          (let product = old\<lparr>p_status := ''rejected''\<rparr>;
               st1 = st\<lparr>products := (products st)(param_id req \<mapsto> product)\<rparr>
           in case shops st1 (p_shopId product) of
                None \<Rightarrow> (errorHandler TypeError, st1)
              | Some shop \<Rightarrow>
                  (case notification_create e st1
                          \<lparr>n_userId = None, n_ownerId = Some (s_ownerId shop), n_adminId = None,
                            n_type = ''approval'', n_title = ''Product Rejected'',
                            n_message =
                              (case truthy (body_reason req) of
                                 Some reason \<Rightarrow>
                                   ''Your product \"'' @ p_name product @
                                     ''\" has been rejected. Reason: '' @ reason
                               | None \<Rightarrow>
                                   ''Your product \"'' @ p_name product @
                                     ''\" has been rejected. Please review and update your product listing.''),
                            n_link = ''/products''\<rparr> of
                     Inl err \<Rightarrow> (errorHandler err, st1)
                   | Inr st2 \<Rightarrow>
                       (reply 200 (ProductBody ''Product rejected successfully'' product), st2))))"

definition put_approve :: "env \<Rightarrow> db \<Rightarrow> request \<Rightarrow> response \<times> db" where
  "put_approve e st req = route authenticateAdmin e (approve_product e) st req"

definition put_reject :: "env \<Rightarrow> db \<Rightarrow> request \<Rightarrow> response \<times> db" where
  "put_reject e st req = route authenticateAdmin e (reject_product e) st req"

section \<open>Notions used in the statements\<close>

text \<open>A line item is available when its product exists and holds the quantity asked for.\<close>

definition available :: "db \<Rightarrow> line_item \<Rightarrow> bool" where
  "available st item =
     (case products st (li_productId item) of
        None \<Rightarrow> False
      | Some product \<Rightarrow> li_quantity item \<le> p_stock product)"

text \<open>
  The stored price of the product of a line item, times the quantity asked for (the
  product of the runtime).
\<close>

definition line_total :: "env \<Rightarrow> db \<Rightarrow> line_item \<Rightarrow> number" where
  "line_total e st item =
     (case products st (li_productId item) of
        None \<Rightarrow> Finite 0
      | Some product \<Rightarrow>
          num_times e (p_price product) (Finite (real_of_int (li_quantity item))))"

text \<open>The sum of the runtime over a list of numbers, from 0 and from left to right.\<close>

definition sum_of :: "env \<Rightarrow> number list \<Rightarrow> number" where
  "sum_of e xs = foldl (num_plus e) (Finite 0) xs"

text \<open>The order item of a line item: the quantity, and the price the product has now.\<close>

definition snapshot :: "db \<Rightarrow> line_item \<Rightarrow> order_item" where
  "snapshot st item =
     \<lparr>oi_productId = li_productId item, oi_quantity = li_quantity item,
       oi_price = (case products st (li_productId item) of
                     None \<Rightarrow> Finite 0
                   | Some product \<Rightarrow> p_price product)\<rparr>"

text \<open>The quantity a request asks of one product, over all its line items.\<close>

definition requested :: "ident \<Rightarrow> line_item list \<Rightarrow> int" where
  "requested pid items =
     sum_list (map li_quantity (filter (\<lambda>item. li_productId item = pid) items))"

text \<open>The owner of the shop of a product id, when product, shop and owner id are there.\<close>

definition owner_of :: "db \<Rightarrow> ident \<Rightarrow> ident option" where
  "owner_of st pid =
     (case products st pid of
        None \<Rightarrow> None
      | Some product \<Rightarrow>
          if p_shopId product = [] then None
          else (case shops st (p_shopId product) of
                  None \<Rightarrow> None
                | Some shop \<Rightarrow> if s_ownerId shop = [] then None else Some (s_ownerId shop)))"

text \<open>The row that \<^verbatim>\<open>notifyOrderCreated\<close> asks the store to write.\<close>

definition order_created_notification :: "env \<Rightarrow> order \<Rightarrow> ident \<Rightarrow> notification" where
  "order_created_notification e ord ownerId =
     \<lparr>n_userId = None, n_ownerId = Some ownerId, n_adminId = None, n_type = ''order'',
       n_title = ''New Order Received'',
       n_message = ''New order #'' @ slice_last 8 (o_id ord) @ '' received for '' @
          currency_sign @ toLocaleString e (o_total ord),
       n_link = ''/dashboard/orders''\<rparr>"

text \<open>The row that \<^verbatim>\<open>notifyOrderStatusChanged\<close> asks the store to write.\<close>

definition status_changed_notification :: "order \<Rightarrow> string \<Rightarrow> notification" where
  "status_changed_notification ord newStatus =
     \<lparr>n_userId = Some (o_userId ord), n_ownerId = None, n_adminId = None, n_type = ''order'',
       n_title = ''Order '' @ toUpperCase (take 1 newStatus) @ drop 1 newStatus,
       n_message = (case statusMessages newStatus of
                      Some m \<Rightarrow> m
                    | None \<Rightarrow> ''Your order status changed to '' @ newStatus),
       n_link = ''/profile/orders''\<rparr>"

text \<open>The invariant of the orders table: a completed order carries a receipt.\<close>

definition receipted :: "order \<Rightarrow> bool" where
  "receipted ord = (if o_status ord = ''completed'' then o_receiptNumber ord \<noteq> None else True)"

definition completed_have_receipt :: "db \<Rightarrow> bool" where
  "completed_have_receipt st = list_all receipted (orders st)"

text \<open>The order row that the creation handler builds for a request, and the stored
  products after its decrements.\<close>

definition created_order :: "env \<Rightarrow> identity \<Rightarrow> db \<Rightarrow> request \<Rightarrow> order" where
  "created_order e user st req =
     \<lparr>o_id = new_id req, o_userId = i_id user,
       o_total = sum_of e (map (line_total e st) (body_items req)),
       o_status = ''pending'', o_receiptNumber = None, o_completedAt = None,
       o_shippingAddress = trim (body_shippingAddress req),
       o_shippingCity = trim (body_shippingCity req),
       o_shippingZip = trim (body_shippingZip req),
       o_items = map (snapshot st) (body_items req)\<rparr>"

definition stock_after :: "db \<Rightarrow> line_item list \<Rightarrow> ident \<Rightarrow> product option" where
  "stock_after st items pid =
     map_option (\<lambda>product. product\<lparr>p_stock := p_stock product - requested pid items\<rparr>)
       (products st pid)"

text \<open>
  The owner of the shop of the product of an order item, when the product and the shop
  are on record.
\<close>

definition shop_owner :: "db \<Rightarrow> order_item \<Rightarrow> ident option" where
  "shop_owner st item =
     (case products st (oi_productId item) of
        None \<Rightarrow> None
      | Some product \<Rightarrow>
          (case shops st (p_shopId product) of
             None \<Rightarrow> None
           | Some shop \<Rightarrow> Some (s_ownerId shop)))"

section \<open>Example data\<close>

text \<open>
  A small marketplace on which the theorems below are run: the user \<open>u1\<close>, the approved
  owner \<open>o1\<close> with the shops \<open>s1\<close> and \<open>s2\<close>, the owner \<open>o2\<close> who waits for
  approval, the admin \<open>a1\<close>, and the products \<open>A\<close> (price 10, stock 5, shop \<open>s1\<close>)
  and \<open>B\<close> (price 5, stock 3, shop \<open>s2\<close>).
\<close>

definition ex_verify :: "string \<Rightarrow> decoded option" where
  "ex_verify t =
     (if t = ''tu'' then Some \<lparr>d_id = ''u1'', d_email = ''u1@x'', d_role = ''user''\<rparr>
      else if t = ''to'' then Some \<lparr>d_id = ''o1'', d_email = ''o1@x'', d_role = ''owner''\<rparr>
      else if t = ''tp'' then Some \<lparr>d_id = ''o2'', d_email = ''o2@x'', d_role = ''owner''\<rparr>
      else if t = ''ta'' then Some \<lparr>d_id = ''a1'', d_email = ''a1@x'', d_role = ''admin''\<rparr>
      else None)"

text \<open>
  The runtime of the examples computes the product and the sum of two finite numbers
  exactly, which is what the arithmetic of doubles does on the small integers used below.
\<close>

fun exact_times :: "number \<Rightarrow> number \<Rightarrow> number" where
  "exact_times (Finite x) (Finite y) = Finite (x * y)"
| "exact_times x y = NaN"

fun exact_plus :: "number \<Rightarrow> number \<Rightarrow> number" where
  "exact_plus (Finite x) (Finite y) = Finite (x + y)"
| "exact_plus x y = NaN"

definition ex_env :: env where
  "ex_env = \<lparr>verifyToken = ex_verify, notification_failure = (\<lambda>n. None),
     num_times = exact_times, num_plus = exact_plus,
     toLocaleString = (\<lambda>x. ''n''), JSON_parse = (\<lambda>s. None)\<rparr>"

text \<open>The same runtime with a notification table that refuses every write.\<close>

definition connection_lost :: js_error where
  "connection_lost = \<lparr>err_code = ''P1001'', err_name = ''PrismaClientInitializationError'',
     err_statusCode = None, err_message = ''Cannot reach database server'', err_target = None\<rparr>"

definition ex_env_failing :: env where
  "ex_env_failing = ex_env\<lparr>notification_failure := (\<lambda>n. Some connection_lost)\<rparr>"

definition ex_A :: product where
  "ex_A = \<lparr>p_name = ''Copper wire'', p_price = Finite 10, p_stock = 5, p_shopId = ''s1'',
     p_status = ''approved''\<rparr>"

definition ex_B :: product where
  "ex_B = \<lparr>p_name = ''Old radio'', p_price = Finite 5, p_stock = 3, p_shopId = ''s2'',
     p_status = ''pending''\<rparr>"

definition ex_db :: db where
  "ex_db =
     \<lparr>users = [''u1'' \<mapsto> \<lparr>u_email = ''u1@x'', u_wishlist = JArray [''A'', ''B'']\<rparr>],
       owners = [''o1'' \<mapsto> \<lparr>ow_email = ''o1@x'', ow_approved = True\<rparr>,
                 ''o2'' \<mapsto> \<lparr>ow_email = ''o2@x'', ow_approved = False\<rparr>],
       admins = [''a1'' \<mapsto> \<lparr>ad_email = ''a1@x'', ad_role = ''admin''\<rparr>],
       shops = [''s1'' \<mapsto> \<lparr>s_name = ''Yard one'', s_ownerId = ''o1''\<rparr>,
                ''s2'' \<mapsto> \<lparr>s_name = ''Yard two'', s_ownerId = ''o1''\<rparr>],
       products = [''A'' \<mapsto> ex_A, ''B'' \<mapsto> ex_B],
       orders = [],
       notifications = []\<rparr>"

text \<open>A request with nothing in it, to be filled in field by field.\<close>

definition ex_req :: request where
  "ex_req =
     \<lparr>body_error = None, cookie_token = None, authorization = None, param_id = [],
       body_items = [],
       body_shippingAddress = [], body_shippingCity = [], body_shippingZip = [],
       body_status = [], body_productId = [], body_reason = None,
       new_id = [], now_iso = [], random36 = []\<rparr>"

definition ex_order_req :: request where
  "ex_order_req =
     ex_req\<lparr>cookie_token := Some ''tu'',
       body_items := [\<lparr>li_productId = ''A'', li_quantity = 2\<rparr>,
                      \<lparr>li_productId = ''B'', li_quantity = 1\<rparr>],
       body_shippingAddress := ''1 Main St'', body_shippingCity := ''Cebu'',
       body_shippingZip := ''6000'', new_id := ''ord-0001''\<rparr>"

definition ex_missing_req :: request where
  "ex_missing_req =
     ex_order_req\<lparr>body_items := [\<lparr>li_productId = ''Z'', li_quantity = 1\<rparr>,
                                   \<lparr>li_productId = ''A'', li_quantity = 9\<rparr>]\<rparr>"

definition ex_double_req :: request where
  "ex_double_req =
     ex_order_req\<lparr>body_items := [\<lparr>li_productId = ''A'', li_quantity = 3\<rparr>,
                                   \<lparr>li_productId = ''A'', li_quantity = 3\<rparr>]\<rparr>"

text \<open>
  The same marketplace after the user \<open>u1\<close> has ordered two \<open>A\<close> and one \<open>B\<close> and the
  order has been delivered.
\<close>

definition ex_order :: order where
  "ex_order =
     \<lparr>o_id = ''ord-0001'', o_userId = ''u1'', o_total = Finite 25, o_status = ''delivered'',
       o_receiptNumber = None, o_completedAt = None, o_shippingAddress = ''1 Main St'',
       o_shippingCity = ''Cebu'', o_shippingZip = ''6000'',
       o_items = [\<lparr>oi_productId = ''A'', oi_quantity = 2, oi_price = Finite 10\<rparr>,
                  \<lparr>oi_productId = ''B'', oi_quantity = 1, oi_price = Finite 5\<rparr>]\<rparr>"

definition ex_db_delivered :: db where
  "ex_db_delivered = ex_db\<lparr>orders := [ex_order]\<rparr>"

definition ex_confirm_req :: request where
  "ex_confirm_req =
     ex_req\<lparr>cookie_token := Some ''tu'', param_id := ''ord-0001'',
       now_iso := ''2026-01-15T10:00:00.000Z'', random36 := ''0.k3j9x1q8zz4''\<rparr>"

text \<open>A session: the order is placed, the owner marks it delivered, the user confirms.\<close>

definition ex_session :: "(endpoint \<times> request) list" where
  "ex_session =
     [(PostOrder, ex_order_req),
      (PutStatus, ex_req\<lparr>cookie_token := Some ''to'', param_id := ''ord-0001'',
                          body_status := ''delivered''\<rparr>),
      (PutConfirm, ex_confirm_req)]"

text \<open>The owner \<open>o1\<close> asks for a status of the delivered order.\<close>

definition ex_status_req :: "string \<Rightarrow> request" where
  "ex_status_req s =
     ex_req\<lparr>cookie_token := Some ''to'', param_id := ''ord-0001'', body_status := s\<rparr>"

text \<open>The admin \<open>a1\<close> approves the product \<open>B\<close>.\<close>

definition ex_approve_req :: request where
  "ex_approve_req = ex_req\<lparr>cookie_token := Some ''ta'', param_id := ''B''\<rparr>"

text \<open>A request without credential whose JSON body the parser could not read.\<close>

definition entity_parse_failed :: js_error where
  "entity_parse_failed = \<lparr>err_code = [], err_name = ''SyntaxError'', err_statusCode = Some 400,
     err_message = ''Unexpected end of JSON input'', err_target = None\<rparr>"

definition ex_unparsed_req :: request where
  "ex_unparsed_req = ex_req\<lparr>body_error := Some entity_parse_failed\<rparr>"

text \<open>The user \<open>u1\<close> toggles a product of the wishlist \<open>[A, B]\<close>.\<close>

definition ex_toggle_req :: "string \<Rightarrow> request" where
  "ex_toggle_req productId = ex_req\<lparr>cookie_token := Some ''tu'', body_productId := productId\<rparr>"

section \<open>The authorization gate: properties\<close>

lemma route_answers:
  "middleware e st req = Inl answer \<Longrightarrow> route middleware e rest st req = (answer, st)"
  by (simp add: route_def)

lemma authenticateOwner_pending:
  assumes "extractToken req = Some token" and "token \<noteq> []"
    and "verifyToken e token = Some d" and "d_role d = ''owner''"
    and "owners st (d_id d) = Some ow" and "\<not> ow_approved ow"
  shows "authenticateOwner e st req =
    Inl (reply 403 (ErrorCode ''Your account is pending approval.'' ''PENDING_APPROVAL''))"
  using assms by (simp add: authenticateOwner_def)

text \<open>
  Claim C4. On every owner-only route, whatever the rest of its chain is, a request whose
  credential verifies to the role \<open>owner\<close> and whose Owner record is loaded with
  \<open>approved = false\<close> is answered with status 403 and the code
  \<open>PENDING_APPROVAL\<close>; the answer and the store do not depend on the rest of the
  chain, which is never run, and the store is the one the request found.
\<close>

theorem pending_owner_forbidden:
  assumes "extractToken req = Some token" and "token \<noteq> []"
    and "verifyToken e token = Some d" and "d_role d = ''owner''"
    and "owners st (d_id d) = Some ow" and "\<not> ow_approved ow"
  shows "route authenticateOwner e rest st req =
    (\<lparr>status = 403,
      body = ErrorCode ''Your account is pending approval.'' ''PENDING_APPROVAL''\<rparr>, st)"
  using authenticateOwner_pending [OF assms] by (simp add: route_def reply_def)

theorem pending_owner_forbidden_witness:
  "extractToken (ex_req\<lparr>cookie_token := Some ''tp'', param_id := ''x1'', body_status := ''shipped''\<rparr>)
     = Some ''tp'' \<and>
   ''tp'' \<noteq> [] \<and>
   verifyToken ex_env ''tp'' = Some \<lparr>d_id = ''o2'', d_email = ''o2@x'', d_role = ''owner''\<rparr> \<and>
   owners ex_db ''o2'' = Some \<lparr>ow_email = ''o2@x'', ow_approved = False\<rparr> \<and>
   put_status ex_env ex_db
     (ex_req\<lparr>cookie_token := Some ''tp'', param_id := ''x1'', body_status := ''shipped''\<rparr>) =
     (\<lparr>status = 403,
       body = ErrorCode ''Your account is pending approval.'' ''PENDING_APPROVAL''\<rparr>, ex_db)"
proof -
  let ?req = "ex_req\<lparr>cookie_token := Some ''tp'', param_id := ''x1'', body_status := ''shipped''\<rparr>"
  let ?d = "\<lparr>d_id = ''o2'', d_email = ''o2@x'', d_role = ''owner''\<rparr>"
  let ?ow = "\<lparr>ow_email = ''o2@x'', ow_approved = False\<rparr>"
  have h1: "extractToken ?req = Some ''tp''"
    by (simp add: extractToken_def ex_req_def)
  have h2: "''tp'' \<noteq> []" by simp
  have h3: "verifyToken ex_env ''tp'' = Some ?d"
    by (simp add: ex_env_def ex_verify_def)
  have h4: "d_role ?d = ''owner''" by simp
  have h5: "owners ex_db (d_id ?d) = Some ?ow"
    by (simp add: ex_db_def)
  have h6: "\<not> ow_approved ?ow" by simp
  from pending_owner_forbidden [OF h1 h2 h3 h4 h5 h6]
  show ?thesis using h1 h3 h5 by (simp add: put_status_def)
qed

lemma extractToken_None:
  "extractToken req = None \<longleftrightarrow>
     (cookie_token req = None \<or> cookie_token req = Some []) \<and>
     (case authorization req of
        None \<Rightarrow> True
      | Some authHeader \<Rightarrow> take 7 authHeader \<noteq> ''Bearer '')"
  by (auto simp: extractToken_def bearer_def split: option.splits)

text \<open>
  Claim C5, as amended. A request that carries no credential (no token cookie and no
  \<open>Bearer\<close> header, or an empty one), or whose credential fails verification, leaves the
  store as it was on every protected route (whichever of the four authenticating
  middlewares guards it, and whatever the rest of its chain is). Its status is 401 when
  the body parser of the application has accepted it; when the parser could not read the
  body, the request does not reach the route, and the status is the one the error
  translator gives to the exception of the parser.
\<close>

theorem unauthenticated_refused_no_mutation:
  assumes "extractToken req = None \<or> extractToken req = Some [] \<or>
    (\<exists>token. extractToken req = Some token \<and> verifyToken e token = None)"
    and "middleware \<in> {authenticate, authenticateUser, authenticateOwner, authenticateAdmin}"
  shows "snd (app (route middleware e rest) st req) = st \<and>
    status (fst (app (route middleware e rest) st req)) =
      (case body_error req of None \<Rightarrow> 401 | Some err \<Rightarrow> status (errorHandler err))"
proof -
  have "\<exists>m. middleware e st req = Inl (reply 401 (Error m))"
    using assms
    by (auto simp: authenticate_def authenticateUser_def authenticateOwner_def
        authenticateAdmin_def)
  then show ?thesis
    by (auto simp: app_def route_def reply_def split: option.splits)
qed

theorem unauthenticated_refused_no_mutation_witness:
  "extractToken (ex_req\<lparr>authorization := Some ''Bearer forged'', body_productId := ''A''\<rparr>)
     = Some ''forged'' \<and>
   verifyToken ex_env ''forged'' = None \<and>
   body_error (ex_req\<lparr>authorization := Some ''Bearer forged'', body_productId := ''A''\<rparr>) = None \<and>
   status (fst (app (put_wishlist ex_env) ex_db
     (ex_req\<lparr>authorization := Some ''Bearer forged'', body_productId := ''A''\<rparr>))) = 401 \<and>
   snd (app (put_wishlist ex_env) ex_db
     (ex_req\<lparr>authorization := Some ''Bearer forged'', body_productId := ''A''\<rparr>)) = ex_db"
proof -
  let ?req = "ex_req\<lparr>authorization := Some ''Bearer forged'', body_productId := ''A''\<rparr>"
  let ?rest = "validate (wishlistValidation ?req) (update_wishlist ex_env)"
  have h1: "extractToken ?req = Some ''forged''"
    by (simp add: extractToken_def bearer_def ex_req_def)
  have h2: "verifyToken ex_env ''forged'' = None"
    by (simp add: ex_env_def ex_verify_def)
  have h3: "body_error ?req = None"
    by (simp add: ex_req_def)
  have h: "extractToken ?req = None \<or> extractToken ?req = Some [] \<or>
    (\<exists>token. extractToken ?req = Some token \<and> verifyToken ex_env token = None)"
    using h1 h2 by simp
  have m: "authenticateUser \<in> {authenticate, authenticateUser, authenticateOwner, authenticateAdmin}"
    by simp
  have same: "app (put_wishlist ex_env) ex_db ?req = app (route authenticateUser ex_env ?rest) ex_db ?req"
    by (simp add: app_def put_wishlist_def split: option.splits)
  from unauthenticated_refused_no_mutation [OF h m, of ?rest ex_db] h1 h2 h3
  show ?thesis unfolding same by simp
qed

text \<open>
  The claim as stated (the status is 401) fails for a request without credential whose
  body is not valid JSON: the application answers 400 before the route is reached.
\<close>

theorem unparsed_body_400_counterexample:
  "extractToken ex_unparsed_req = None \<and>
   app (put_wishlist ex_env) ex_db ex_unparsed_req =
     (\<lparr>status = 400, body = Error ''Unexpected end of JSON input''\<rparr>, ex_db)"
  by (simp add: app_def ex_unparsed_req_def ex_req_def extractToken_def bearer_def
      errorHandler_def entity_parse_failed_def reply_def)

section \<open>Wishlist toggle: properties\<close>

lemma toggle_toggle_set: "set (toggle (toggle w p) p) = set w"
  by (auto simp: toggle_def)

lemma toggle_toggle_absent: "p \<notin> set w \<Longrightarrow> toggle (toggle w p) p = w"
  by (auto simp: toggle_def filter_id_conv)

lemma toggle_toggle_present:
  "p \<in> set w \<Longrightarrow> toggle (toggle w p) p = filter (\<lambda>i. i \<noteq> p) w @ [p]"
  by (simp add: toggle_def)

lemma put_wishlist_ok:
  assumes "authenticateUser e st req = Inr user" and "body_productId req \<noteq> []"
  shows "\<exists>u. users st (i_id user) = Some u \<and>
    put_wishlist e st req =
      (reply 200 (WishlistBody (toggle (wishlist_of e st (i_id user)) (body_productId req))),
       st\<lparr>users := (users st)(i_id user \<mapsto>
            u\<lparr>u_wishlist := JArray (toggle (wishlist_of e st (i_id user)) (body_productId req))\<rparr>)\<rparr>)"
  using assms
  by (auto simp: authenticateUser_def put_wishlist_def route_def validate_def wishlistValidation_def
      update_wishlist_def wishlist_of_def Let_def split: option.splits if_splits)

lemma authenticateUser_wishlist_update:
  assumes "authenticateUser e st req = Inr user" and "users st (i_id user) = Some u"
  shows "authenticateUser e (st\<lparr>users := (users st)(i_id user \<mapsto> u\<lparr>u_wishlist := w\<rparr>)\<rparr>) req = Inr user"
  using assms
  by (auto simp: authenticateUser_def split: option.splits if_splits)

lemma wishlist_of_update:
  "wishlist_of e (st\<lparr>users := (users st)(uid \<mapsto> u\<lparr>u_wishlist := JArray w\<rparr>)\<rparr>) uid = w"
  by (simp add: wishlist_of_def currentWishlist_def)

lemma toggle_toggle_restores:
  "toggle (toggle w p) p = w \<longleftrightarrow> p \<notin> set (butlast w)"
proof (cases w rule: rev_cases)
  case Nil
  then show ?thesis by (simp add: toggle_def)
next
  case (snoc front l)
  show ?thesis
  proof (cases "l = p")
    case True
    then show ?thesis
      by (auto simp: snoc toggle_def filter_id_conv)
  next
    case False
    show ?thesis
    proof (cases "p \<in> set front")
      case True
      have "filter (\<lambda>i. i \<noteq> p) front @ [l, p] \<noteq> front @ [l]"
      proof
        assume "filter (\<lambda>i. i \<noteq> p) front @ [l, p] = front @ [l]"
        then have "last (filter (\<lambda>i. i \<noteq> p) front @ [l, p]) = last (front @ [l])" by simp
        with False show False by simp
      qed
      with True False show ?thesis
        by (simp add: snoc toggle_def)
    next
      case False
      with \<open>l \<noteq> p\<close> show ?thesis
        by (auto simp: snoc toggle_def filter_id_conv)
    qed
  qed
qed

text \<open>
  Claim C8, as amended. When the same authenticated user toggles the same product id twice
  in succession, the wishlist holds the same set of ids as before. The ordered list is
  the original one exactly when the id does not occur before the last position of the
  original list (it was absent, or it occurred once, in last place). Otherwise every
  occurrence of the id has been removed and the id has been appended, so it now stands
  last.
\<close>

theorem toggle_twice_same_ids:
  assumes "authenticateUser e st req = Inr user" and "body_productId req \<noteq> []"
  shows "set (wishlist_of e (snd (put_wishlist e (snd (put_wishlist e st req)) req)) (i_id user)) =
      set (wishlist_of e st (i_id user)) \<and>
    wishlist_of e (snd (put_wishlist e (snd (put_wishlist e st req)) req)) (i_id user) =
      (if body_productId req \<in> set (wishlist_of e st (i_id user))
       then filter (\<lambda>i. i \<noteq> body_productId req) (wishlist_of e st (i_id user)) @ [body_productId req]
       else wishlist_of e st (i_id user)) \<and>
    (wishlist_of e (snd (put_wishlist e (snd (put_wishlist e st req)) req)) (i_id user) =
       wishlist_of e st (i_id user)) =
      (body_productId req \<notin> set (butlast (wishlist_of e st (i_id user))))"
proof -
  let ?p = "body_productId req" and ?uid = "i_id user"
  let ?w = "wishlist_of e st ?uid"
  obtain u where u: "users st ?uid = Some u"
    and first: "put_wishlist e st req =
      (reply 200 (WishlistBody (toggle ?w ?p)),
       st\<lparr>users := (users st)(?uid \<mapsto> u\<lparr>u_wishlist := JArray (toggle ?w ?p)\<rparr>)\<rparr>)"
    using put_wishlist_ok [OF assms] by blast
  let ?st1 = "st\<lparr>users := (users st)(?uid \<mapsto> u\<lparr>u_wishlist := JArray (toggle ?w ?p)\<rparr>)\<rparr>"
  have auth1: "authenticateUser e ?st1 req = Inr user"
    using authenticateUser_wishlist_update [OF assms(1) u] .
  have w1: "wishlist_of e ?st1 ?uid = toggle ?w ?p"
    by (rule wishlist_of_update)
  obtain u1 where second: "put_wishlist e ?st1 req =
      (reply 200 (WishlistBody (toggle (toggle ?w ?p) ?p)),
       ?st1\<lparr>users := (users ?st1)(?uid \<mapsto> u1\<lparr>u_wishlist := JArray (toggle (toggle ?w ?p) ?p)\<rparr>)\<rparr>)"
    using put_wishlist_ok [OF auth1 assms(2)] unfolding w1 by blast
  have after: "wishlist_of e (snd (put_wishlist e (snd (put_wishlist e st req)) req)) ?uid =
      toggle (toggle ?w ?p) ?p"
    unfolding first snd_conv second by (rule wishlist_of_update)
  show ?thesis
    unfolding after
    by (simp add: toggle_toggle_set toggle_toggle_absent toggle_toggle_present
        toggle_toggle_restores)
qed

theorem toggle_twice_same_ids_witness:
  "authenticateUser ex_env ex_db (ex_toggle_req ''B'') =
     Inr \<lparr>i_id = ''u1'', i_email = ''u1@x'', i_role = ''user''\<rparr> \<and>
   wishlist_of ex_env ex_db ''u1'' = [''A'', ''B''] \<and>
   wishlist_of ex_env
     (snd (put_wishlist ex_env (snd (put_wishlist ex_env ex_db (ex_toggle_req ''B'')))
        (ex_toggle_req ''B''))) ''u1'' = [''A'', ''B''] \<and>
   authenticateUser ex_env ex_db (ex_toggle_req ''A'') =
     Inr \<lparr>i_id = ''u1'', i_email = ''u1@x'', i_role = ''user''\<rparr> \<and>
   set (wishlist_of ex_env
     (snd (put_wishlist ex_env (snd (put_wishlist ex_env ex_db (ex_toggle_req ''A'')))
        (ex_toggle_req ''A''))) ''u1'') = {''A'', ''B''} \<and>
   wishlist_of ex_env
     (snd (put_wishlist ex_env (snd (put_wishlist ex_env ex_db (ex_toggle_req ''A'')))
        (ex_toggle_req ''A''))) ''u1'' \<noteq> [''A'', ''B'']"
proof -
  let ?user = "\<lparr>i_id = ''u1'', i_email = ''u1@x'', i_role = ''user''\<rparr>"
  have h1: "authenticateUser ex_env ex_db (ex_toggle_req p) = Inr ?user" for p
    by (simp add: authenticateUser_def extractToken_def ex_toggle_req_def ex_req_def ex_env_def
        ex_verify_def ex_db_def)
  have hA: "body_productId (ex_toggle_req ''A'') \<noteq> []" and hB: "body_productId (ex_toggle_req ''B'') \<noteq> []"
    by (simp_all add: ex_toggle_req_def)
  have pA: "body_productId (ex_toggle_req ''A'') = ''A''" and pB: "body_productId (ex_toggle_req ''B'') = ''B''"
    by (simp_all add: ex_toggle_req_def)
  have w: "wishlist_of ex_env ex_db ''u1'' = [''A'', ''B'']"
    by (simp add: wishlist_of_def currentWishlist_def ex_db_def)
  note B = toggle_twice_same_ids [OF h1 hB, unfolded pB]
  note A = toggle_twice_same_ids [OF h1 hA, unfolded pA]
  from B have restored: "wishlist_of ex_env
     (snd (put_wishlist ex_env (snd (put_wishlist ex_env ex_db (ex_toggle_req ''B'')))
        (ex_toggle_req ''B''))) ''u1'' = [''A'', ''B'']"
    by (simp add: w)
  from A have same_set: "set (wishlist_of ex_env
     (snd (put_wishlist ex_env (snd (put_wishlist ex_env ex_db (ex_toggle_req ''A'')))
        (ex_toggle_req ''A''))) ''u1'') = {''A'', ''B''}"
    by (auto simp: w)
  from A have moved: "wishlist_of ex_env
     (snd (put_wishlist ex_env (snd (put_wishlist ex_env ex_db (ex_toggle_req ''A'')))
        (ex_toggle_req ''A''))) ''u1'' \<noteq> [''A'', ''B'']"
    by (simp add: w)
  from h1 [of "''A''"] h1 [of "''B''"] w restored same_set moved show ?thesis
    by blast
qed

text \<open>
  The claim as stated (the ordered collection returns to its original contents) fails:
  the wishlist \<open>[A, B]\<close> becomes \<open>[B]\<close> and then \<open>[B, A]\<close> when \<open>A\<close> is toggled
  twice.
\<close>

theorem toggle_twice_order_counterexample:
  "wishlist_of ex_env ex_db ''u1'' = [''A'', ''B''] \<and>
   wishlist_of ex_env
     (snd (put_wishlist ex_env
        (snd (put_wishlist ex_env ex_db (ex_req\<lparr>cookie_token := Some ''tu'', body_productId := ''A''\<rparr>)))
        (ex_req\<lparr>cookie_token := Some ''tu'', body_productId := ''A''\<rparr>))) ''u1'' = [''B'', ''A'']"
  by (simp add: wishlist_of_def currentWishlist_def put_wishlist_def route_def validate_def
      wishlistValidation_def update_wishlist_def toggle_def authenticateUser_def extractToken_def
      ex_req_def ex_env_def ex_verify_def ex_db_def Let_def)

section \<open>Order creation: properties\<close>

lemma check_items_available:
  "\<forall>item\<in>set items. available st item \<Longrightarrow>
   check_items e st items running acc =
     Inr (foldl (num_plus e) running (map (line_total e st) items),
          acc @ map (snapshot st) items)"
proof (induction items arbitrary: running acc)
  case Nil
  then show ?case by simp
next
  case (Cons item rest)
  then obtain product where p: "products st (li_productId item) = Some product"
    and q: "li_quantity item \<le> p_stock product"
    by (auto simp: available_def split: option.splits)
  from Cons.prems have "\<forall>x\<in>set rest. available st x" by simp
  from Cons.IH [OF this] p q show ?case
    by (simp add: line_total_def snapshot_def)
qed

lemma requested_Cons:
  "requested pid (item # rest) =
     (if li_productId item = pid then li_quantity item else 0) + requested pid rest"
  by (simp add: requested_def)

lemma decrement_stock_all:
  "\<forall>item\<in>set items. products st (li_productId item) \<noteq> None \<Longrightarrow>
   decrement_stock st items =
     (None, st\<lparr>products := (\<lambda>pid. map_option
        (\<lambda>product. product\<lparr>p_stock := p_stock product - requested pid items\<rparr>)
        (products st pid))\<rparr>)"
proof (induction items arbitrary: st)
  case Nil
  have "(\<lambda>pid. map_option (\<lambda>product. product\<lparr>p_stock := p_stock product - requested pid []\<rparr>)
          (products st pid)) = products st"
    by (rule ext) (simp add: requested_def option.map_ident)
  then show ?case by simp
next
  case (Cons item rest)
  then obtain product where p: "products st (li_productId item) = Some product"
    by auto
  let ?st1 = "st\<lparr>products := (products st)(li_productId item \<mapsto>
                  product\<lparr>p_stock := p_stock product - li_quantity item\<rparr>)\<rparr>"
  have "\<forall>x\<in>set rest. products ?st1 (li_productId x) \<noteq> None"
    using Cons.prems by simp
  note IH = Cons.IH [OF this]
  have "(\<lambda>pid. map_option (\<lambda>q. q\<lparr>p_stock := p_stock q - requested pid rest\<rparr>) (products ?st1 pid)) =
        (\<lambda>pid. map_option (\<lambda>q. q\<lparr>p_stock := p_stock q - requested pid (item # rest)\<rparr>) (products st pid))"
    by (rule ext) (auto simp: requested_Cons p diff_diff_eq)
  with IH p show ?case by simp
qed

lemma set_add_set: "set (set_add acc x) = insert x (set acc)"
  by (auto simp: set_add_def)

lemma set_add_distinct: "distinct acc \<Longrightarrow> distinct (set_add acc x)"
  by (simp add: set_add_def)

lemma shopOwnerIds_distinct: "distinct acc \<Longrightarrow> distinct (shopOwnerIds st joined acc)"
  by (induction st joined acc rule: shopOwnerIds.induct)
    (auto simp: set_add_distinct split: option.splits)

lemma shopOwnerIds_set:
  "shops st2 = shops st \<Longrightarrow>
   set (shopOwnerIds st2 (map (products st) pids) acc) =
     set acc \<union> {ownerId. \<exists>pid\<in>set pids. owner_of st pid = Some ownerId}"
proof (induction pids arbitrary: acc)
  case Nil
  then show ?case by simp
next
  case (Cons pid rest)
  show ?case
    using Cons.IH [OF Cons.prems] Cons.prems
    by (auto simp: owner_of_def set_add_set split: option.splits if_splits)
qed

lemma notifyOrderCreated_written:
  "notification_failure e (order_created_notification e ord ownerId) = None \<Longrightarrow>
   notifyOrderCreated e s ord ownerId =
     s\<lparr>notifications := notifications s @ [order_created_notification e ord ownerId]\<rparr>"
  by (simp add: notifyOrderCreated_def notifyOwner_def notification_create_def
      order_created_notification_def)

lemma notifyOrderCreated_all:
  "\<forall>n. notification_failure e n = None \<Longrightarrow>
   foldl (\<lambda>s ownerId. notifyOrderCreated e s ord ownerId) st ownerIds =
     st\<lparr>notifications := notifications st @ map (order_created_notification e ord) ownerIds\<rparr>"
proof (induction ownerIds arbitrary: st)
  case Nil
  then show ?case by simp
next
  case (Cons ownerId rest)
  then show ?case by (simp add: notifyOrderCreated_written)
qed

lemma post_order_handler:
  assumes "authenticateUser e st req = Inr user" and "createOrderValidation req = []"
  shows "post_order e st req = create_order e user st req"
  using assms by (simp add: post_order_def route_def validate_def)

lemma create_order_accepted:
  assumes stock: "\<forall>item\<in>set (body_items req). available st item"
    and fresh: "order_findUnique st (new_id req) = None"
  shows "create_order e user st req =
    (reply 201 (OrderBody (created_order e user st req)),
     foldl (\<lambda>s ownerId. notifyOrderCreated e s (created_order e user st req) ownerId)
       (st\<lparr>orders := orders st @ [created_order e user st req],
            products := stock_after st (body_items req)\<rparr>)
       (shopOwnerIds
          (st\<lparr>orders := orders st @ [created_order e user st req],
               products := stock_after st (body_items req)\<rparr>)
          (map (products st) (map li_productId (body_items req))) []))"
proof -
  let ?items = "body_items req"
  let ?ord = "created_order e user st req"
  let ?st1 = "st\<lparr>orders := orders st @ [?ord]\<rparr>"
  have checked: "check_items e st ?items (Finite 0) [] =
      Inr (sum_of e (map (line_total e st) ?items), map (snapshot st) ?items)"
    using check_items_available [OF stock, of e "Finite 0" "[]"] by (simp add: sum_of_def)
  have created: "order_create st ?ord = Inr ?st1"
    using fresh by (simp add: order_create_def created_order_def)
  have "\<forall>item\<in>set ?items. products ?st1 (li_productId item) \<noteq> None"
    using stock by (auto simp: available_def split: option.splits)
  from decrement_stock_all [OF this]
  have decremented: "decrement_stock ?st1 ?items = (None, ?st1\<lparr>products := stock_after st ?items\<rparr>)"
    by (simp add: stock_after_def [abs_def])
  have joined: "map (\<lambda>item. products ?st1 (oi_productId item)) (o_items ?ord) =
      map (products st) (map li_productId ?items)"
    by (simp add: snapshot_def comp_def created_order_def)
  show ?thesis
    unfolding create_order_def checked
    using created decremented joined
    by (simp add: Let_def created_order_def [symmetric] del: map_map)
qed

text \<open>
  Claim C1. An order-creation request of an authenticated user that passes validation,
  whose line items all reference existing products with sufficient stock, is answered with
  201 and the created order (the store accepting the new order id and the notification
  writes). The total of the order is the sum over the line items of the stored price of
  the product times the quantity asked for, where sum and product are those of JavaScript
  numbers, taken from 0 in the order of the line items, and the order items carry that
  price; the stock of every product is its old stock minus the quantities of the line
  items that reference it; and the notifications written are one \<open>New Order Received\<close>
  row for each owner in a duplicate-free list of exactly the owners of the shops of the
  products of the line items.
\<close>

theorem order_creation:
  assumes auth: "authenticateUser e st req = Inr user"
    and valid: "createOrderValidation req = []"
    and stock: "\<forall>item\<in>set (body_items req). available st item"
    and fresh: "order_findUnique st (new_id req) = None"
    and writes: "\<forall>n. notification_failure e n = None"
  shows "\<exists>ord ownerIds.
    fst (post_order e st req) = \<lparr>status = 201, body = OrderBody ord\<rparr> \<and>
    o_userId ord = i_id user \<and>
    o_total ord = sum_of e (map (line_total e st) (body_items req)) \<and>
    o_items ord = map (snapshot st) (body_items req) \<and>
    orders (snd (post_order e st req)) = orders st @ [ord] \<and>
    products (snd (post_order e st req)) =
      (\<lambda>pid. map_option
         (\<lambda>product. product\<lparr>p_stock := p_stock product - requested pid (body_items req)\<rparr>)
         (products st pid)) \<and>
    notifications (snd (post_order e st req)) =
      notifications st @ map (order_created_notification e ord) ownerIds \<and>
    distinct ownerIds \<and>
    set ownerIds = {ownerId. \<exists>item\<in>set (body_items req). owner_of st (li_productId item) = Some ownerId}"
proof -
  let ?items = "body_items req"
  let ?ord = "created_order e user st req"
  let ?st2 = "st\<lparr>orders := orders st @ [?ord], products := stock_after st ?items\<rparr>"
  let ?ownerIds = "shopOwnerIds ?st2 (map (products st) (map li_productId ?items)) []"
  have result: "post_order e st req =
      (reply 201 (OrderBody ?ord),
       ?st2\<lparr>notifications := notifications ?st2 @ map (order_created_notification e ?ord) ?ownerIds\<rparr>)"
    unfolding post_order_handler [OF auth valid] create_order_accepted [OF stock fresh]
    by (simp add: notifyOrderCreated_all [OF writes])
  have d: "distinct ?ownerIds"
    by (rule shopOwnerIds_distinct) simp
  have s: "set ?ownerIds = {ownerId. \<exists>item\<in>set ?items. owner_of st (li_productId item) = Some ownerId}"
    by (subst shopOwnerIds_set [where st = st]) auto
  show ?thesis
    unfolding result
    using d s
    by (intro exI [of _ ?ord] exI [of _ ?ownerIds])
      (simp add: reply_def created_order_def stock_after_def [abs_def])
qed

theorem order_creation_witness:
  "authenticateUser ex_env ex_db ex_order_req =
     Inr \<lparr>i_id = ''u1'', i_email = ''u1@x'', i_role = ''user''\<rparr> \<and>
   createOrderValidation ex_order_req = [] \<and>
   available ex_db \<lparr>li_productId = ''A'', li_quantity = 2\<rparr> \<and>
   available ex_db \<lparr>li_productId = ''B'', li_quantity = 1\<rparr> \<and>
   (\<exists>ord ownerIds.
      fst (post_order ex_env ex_db ex_order_req) = \<lparr>status = 201, body = OrderBody ord\<rparr> \<and>
      o_total ord = Finite 25 \<and>
      products (snd (post_order ex_env ex_db ex_order_req)) ''A'' = Some (ex_A\<lparr>p_stock := 3\<rparr>) \<and>
      products (snd (post_order ex_env ex_db ex_order_req)) ''B'' = Some (ex_B\<lparr>p_stock := 2\<rparr>) \<and>
      notifications (snd (post_order ex_env ex_db ex_order_req)) =
        map (order_created_notification ex_env ord) ownerIds \<and>
      distinct ownerIds \<and> set ownerIds = {''o1''})"
proof -
  let ?user = "\<lparr>i_id = ''u1'', i_email = ''u1@x'', i_role = ''user''\<rparr>"
  have h1: "authenticateUser ex_env ex_db ex_order_req = Inr ?user"
    by (simp add: authenticateUser_def extractToken_def ex_order_req_def ex_req_def ex_env_def
        ex_verify_def ex_db_def)
  have h2: "createOrderValidation ex_order_req = []"
    by code_simp
  have items: "body_items ex_order_req =
      [\<lparr>li_productId = ''A'', li_quantity = 2\<rparr>, \<lparr>li_productId = ''B'', li_quantity = 1\<rparr>]"
    by (simp add: ex_order_req_def)
  have a: "available ex_db \<lparr>li_productId = ''A'', li_quantity = 2\<rparr>"
    by (simp add: available_def ex_db_def ex_A_def)
  have b: "available ex_db \<lparr>li_productId = ''B'', li_quantity = 1\<rparr>"
    by (simp add: available_def ex_db_def ex_B_def)
  have h3: "\<forall>item\<in>set (body_items ex_order_req). available ex_db item"
    using a b by (simp add: items)
  have h4: "order_findUnique ex_db (new_id ex_order_req) = None"
    by (simp add: order_findUnique_def ex_db_def)
  have h5: "\<forall>n. notification_failure ex_env n = None"
    by (simp add: ex_env_def)
  have total: "sum_of ex_env (map (line_total ex_env ex_db) (body_items ex_order_req)) = Finite 25"
    by (simp add: items sum_of_def line_total_def ex_env_def ex_db_def ex_A_def ex_B_def)
  have stockA: "map_option (\<lambda>product. product\<lparr>p_stock := p_stock product -
        requested ''A'' (body_items ex_order_req)\<rparr>) (products ex_db ''A'') = Some (ex_A\<lparr>p_stock := 3\<rparr>)"
    by (simp add: items requested_def ex_db_def ex_A_def)
  have stockB: "map_option (\<lambda>product. product\<lparr>p_stock := p_stock product -
        requested ''B'' (body_items ex_order_req)\<rparr>) (products ex_db ''B'') = Some (ex_B\<lparr>p_stock := 2\<rparr>)"
    by (simp add: items requested_def ex_db_def ex_B_def)
  have ownerIds: "{ownerId. \<exists>item\<in>set (body_items ex_order_req).
        owner_of ex_db (li_productId item) = Some ownerId} = {''o1''}"
    by (auto simp: items owner_of_def ex_db_def ex_A_def ex_B_def)
  have n: "notifications ex_db = []"
    by (simp add: ex_db_def)
  from order_creation [OF h1 h2 h3 h4 h5]
  obtain ord ownerIds where
    r: "fst (post_order ex_env ex_db ex_order_req) = \<lparr>status = 201, body = OrderBody ord\<rparr>"
    and t: "o_total ord = sum_of ex_env (map (line_total ex_env ex_db) (body_items ex_order_req))"
    and pr: "products (snd (post_order ex_env ex_db ex_order_req)) =
      (\<lambda>pid. map_option
         (\<lambda>product. product\<lparr>p_stock := p_stock product - requested pid (body_items ex_order_req)\<rparr>)
         (products ex_db pid))"
    and ns: "notifications (snd (post_order ex_env ex_db ex_order_req)) =
      notifications ex_db @ map (order_created_notification ex_env ord) ownerIds"
    and d: "distinct ownerIds"
    and so: "set ownerIds = {ownerId. \<exists>item\<in>set (body_items ex_order_req).
        owner_of ex_db (li_productId item) = Some ownerId}"
    by blast
  have pa: "products (snd (post_order ex_env ex_db ex_order_req)) ''A'' = Some (ex_A\<lparr>p_stock := 3\<rparr>)"
    unfolding pr by (rule stockA)
  have pb: "products (snd (post_order ex_env ex_db ex_order_req)) ''B'' = Some (ex_B\<lparr>p_stock := 2\<rparr>)"
    unfolding pr by (rule stockB)
  have "fst (post_order ex_env ex_db ex_order_req) = \<lparr>status = 201, body = OrderBody ord\<rparr> \<and>
      o_total ord = Finite 25 \<and>
      products (snd (post_order ex_env ex_db ex_order_req)) ''A'' = Some (ex_A\<lparr>p_stock := 3\<rparr>) \<and>
      products (snd (post_order ex_env ex_db ex_order_req)) ''B'' = Some (ex_B\<lparr>p_stock := 2\<rparr>) \<and>
      notifications (snd (post_order ex_env ex_db ex_order_req)) =
        map (order_created_notification ex_env ord) ownerIds \<and>
      distinct ownerIds \<and> set ownerIds = {''o1''}"
    using r t pa pb ns d so unfolding total ownerIds n by simp
  then have "\<exists>ord ownerIds.
      fst (post_order ex_env ex_db ex_order_req) = \<lparr>status = 201, body = OrderBody ord\<rparr> \<and>
      o_total ord = Finite 25 \<and>
      products (snd (post_order ex_env ex_db ex_order_req)) ''A'' = Some (ex_A\<lparr>p_stock := 3\<rparr>) \<and>
      products (snd (post_order ex_env ex_db ex_order_req)) ''B'' = Some (ex_B\<lparr>p_stock := 2\<rparr>) \<and>
      notifications (snd (post_order ex_env ex_db ex_order_req)) =
        map (order_created_notification ex_env ord) ownerIds \<and>
      distinct ownerIds \<and> set ownerIds = {''o1''}"
    by blast
  with h1 h2 a b show ?thesis by blast
qed

text \<open>The answer of the creation handler for a line item that cannot be satisfied.\<close>

lemma check_items_first_refused:
  assumes "\<forall>item\<in>set pre. available st item" and "\<not> available st bad"
  shows "check_items e st (pre @ bad # post) running acc =
    Inl (case products st (li_productId bad) of
           None \<Rightarrow> reply 404 (Error (''Product '' @ li_productId bad @ '' not found''))
         | Some product \<Rightarrow> reply 400 (Error (''Insufficient stock for '' @ p_name product)))"
  using assms
proof (induction pre arbitrary: running acc)
  case Nil
  then show ?case by (auto simp: available_def split: option.splits)
next
  case (Cons item pre)
  then obtain product where "products st (li_productId item) = Some product"
    and "li_quantity item \<le> p_stock product"
    by (auto simp: available_def split: option.splits)
  with Cons show ?case by simp
qed

lemma create_order_refused:
  "check_items e st (body_items req) (Finite 0) [] = Inl answer \<Longrightarrow>
   create_order e user st req = (answer, st)"
  by (simp add: create_order_def)

text \<open>
  Claim C2, as amended. When some line item of a validated order-creation request of an
  authenticated user asks for more than the stored stock of its product, the request
  fails and the store is left as it was: no stock is changed and no order is created. The
  answer is that of the first line item, in the order of the request, that cannot be
  satisfied (every line item before it references an existing product that holds its
  quantity): 400 with the message \<open>Insufficient stock for ...\<close> when its product
  exists, 404 with the message \<open>Product ... not found\<close> when its product does not exist.
\<close>

theorem insufficient_stock_no_write:
  assumes auth: "authenticateUser e st req = Inr user"
    and valid: "createOrderValidation req = []"
    and short: "\<exists>item\<in>set (body_items req). \<exists>product.
      products st (li_productId item) = Some product \<and> p_stock product < li_quantity item"
  shows "snd (post_order e st req) = st \<and>
    (\<exists>pre bad post.
       body_items req = pre @ bad # post \<and>
       (\<forall>item\<in>set pre. available st item) \<and> \<not> available st bad \<and>
       fst (post_order e st req) =
         (case products st (li_productId bad) of
            None \<Rightarrow>
              \<lparr>status = 404, body = Error (''Product '' @ li_productId bad @ '' not found'')\<rparr>
          | Some product \<Rightarrow>
              \<lparr>status = 400, body = Error (''Insufficient stock for '' @ p_name product)\<rparr>))"
proof -
  from short obtain item product where "item \<in> set (body_items req)"
    and "products st (li_productId item) = Some product"
    and "p_stock product < li_quantity item"
    by blast
  then have "item \<in> set (body_items req) \<and> \<not> available st item"
    by (simp add: available_def)
  then have "\<exists>item\<in>set (body_items req). \<not> available st item"
    by blast
  then obtain pre bad post where items: "body_items req = pre @ bad # post"
    and bad: "\<not> available st bad" and pre: "\<forall>item\<in>set pre. \<not> \<not> available st item"
    using split_list_first_prop [of "body_items req" "\<lambda>item. \<not> available st item"] by blast
  from pre have pre': "\<forall>item\<in>set pre. available st item" by simp
  let ?answer = "case products st (li_productId bad) of
           None \<Rightarrow> reply 404 (Error (''Product '' @ li_productId bad @ '' not found''))
         | Some product \<Rightarrow> reply 400 (Error (''Insufficient stock for '' @ p_name product))"
  have "check_items e st (body_items req) (Finite 0) [] = Inl ?answer"
    unfolding items by (rule check_items_first_refused [OF pre' bad])
  then have r: "post_order e st req = (?answer, st)"
    unfolding post_order_handler [OF auth valid] by (rule create_order_refused)
  have "fst (post_order e st req) =
         (case products st (li_productId bad) of
            None \<Rightarrow>
              \<lparr>status = 404, body = Error (''Product '' @ li_productId bad @ '' not found'')\<rparr>
          | Some product \<Rightarrow>
              \<lparr>status = 400, body = Error (''Insufficient stock for '' @ p_name product)\<rparr>)"
    unfolding r by (simp add: reply_def split: option.splits)
  with r items pre' bad show ?thesis by auto
qed

theorem insufficient_stock_no_write_witness:
  "authenticateUser ex_env ex_db
      (ex_order_req\<lparr>body_items := [\<lparr>li_productId = ''B'', li_quantity = 1\<rparr>,
                                     \<lparr>li_productId = ''A'', li_quantity = 9\<rparr>]\<rparr>) =
     Inr \<lparr>i_id = ''u1'', i_email = ''u1@x'', i_role = ''user''\<rparr> \<and>
   createOrderValidation
      (ex_order_req\<lparr>body_items := [\<lparr>li_productId = ''B'', li_quantity = 1\<rparr>,
                                     \<lparr>li_productId = ''A'', li_quantity = 9\<rparr>]\<rparr>) = [] \<and>
   products ex_db ''A'' = Some ex_A \<and> p_stock ex_A < 9 \<and>
   available ex_db \<lparr>li_productId = ''B'', li_quantity = 1\<rparr> \<and>
   post_order ex_env ex_db
      (ex_order_req\<lparr>body_items := [\<lparr>li_productId = ''B'', li_quantity = 1\<rparr>,
                                     \<lparr>li_productId = ''A'', li_quantity = 9\<rparr>]\<rparr>) =
     (\<lparr>status = 400, body = Error ''Insufficient stock for Copper wire''\<rparr>, ex_db)"
proof -
  let ?B = "\<lparr>li_productId = ''B'', li_quantity = 1\<rparr>"
  let ?A = "\<lparr>li_productId = ''A'', li_quantity = 9\<rparr>"
  let ?req = "ex_order_req\<lparr>body_items := [?B, ?A]\<rparr>"
  have h1: "authenticateUser ex_env ex_db ?req =
      Inr \<lparr>i_id = ''u1'', i_email = ''u1@x'', i_role = ''user''\<rparr>"
    by (simp add: authenticateUser_def extractToken_def ex_order_req_def ex_req_def ex_env_def
        ex_verify_def ex_db_def)
  have h2: "createOrderValidation ?req = []"
    by code_simp
  have h4: "products ex_db ''A'' = Some ex_A" by (simp add: ex_db_def)
  have h5: "p_stock ex_A < 9" by (simp add: ex_A_def)
  have h3: "\<exists>item\<in>set (body_items ?req). \<exists>product.
      products ex_db (li_productId item) = Some product \<and> p_stock product < li_quantity item"
    using h4 h5 by simp
  have b: "available ex_db ?B"
    by (simp add: available_def ex_db_def ex_B_def)
  have direct: "fst (post_order ex_env ex_db ?req) =
      \<lparr>status = 400, body = Error ''Insufficient stock for Copper wire''\<rparr>"
    unfolding post_order_handler [OF h1 h2]
    by (simp add: create_order_def ex_db_def ex_A_def ex_B_def reply_def)
  from insufficient_stock_no_write [OF h1 h2 h3] direct h1 h2 h4 h5 b
  show ?thesis by (simp add: prod_eq_iff)
qed

text \<open>
  The claim as stated (the answer is 400) fails when the first line item that cannot be
  satisfied stands before the one that exceeds the stock and references a product that
  does not exist: the answer is 404.
\<close>

theorem insufficient_stock_404_counterexample:
  "body_items ex_missing_req =
     [\<lparr>li_productId = ''Z'', li_quantity = 1\<rparr>, \<lparr>li_productId = ''A'', li_quantity = 9\<rparr>] \<and>
   products ex_db ''A'' = Some ex_A \<and> p_stock ex_A = 5 \<and>
   authenticateUser ex_env ex_db ex_missing_req =
     Inr \<lparr>i_id = ''u1'', i_email = ''u1@x'', i_role = ''user''\<rparr> \<and>
   createOrderValidation ex_missing_req = [] \<and>
   post_order ex_env ex_db ex_missing_req =
     (\<lparr>status = 404, body = Error ''Product Z not found''\<rparr>, ex_db)"
proof -
  have h1: "authenticateUser ex_env ex_db ex_missing_req =
      Inr \<lparr>i_id = ''u1'', i_email = ''u1@x'', i_role = ''user''\<rparr>"
    by (simp add: authenticateUser_def extractToken_def ex_missing_req_def ex_order_req_def
        ex_req_def ex_env_def ex_verify_def ex_db_def)
  have h2: "createOrderValidation ex_missing_req = []"
    by code_simp
  have "post_order ex_env ex_db ex_missing_req =
      (\<lparr>status = 404, body = Error ''Product Z not found''\<rparr>, ex_db)"
    unfolding post_order_handler [OF h1 h2]
    by (simp add: create_order_def ex_missing_req_def ex_db_def reply_def)
  with h1 h2 show ?thesis
    by (simp add: ex_missing_req_def ex_db_def ex_A_def)
qed

lemma check_items_accepts_iff:
  "(\<exists>result. check_items e st items running acc = Inr result) = list_all (available st) items"
  by (induction items arbitrary: running acc)
    (auto simp: available_def split: option.splits)

lemma notifyOrderCreated_products:
  "products (notifyOrderCreated e s ord ownerId) = products s"
  by (simp add: notifyOrderCreated_def notifyOwner_def notification_create_def
      split: option.splits)

lemma notifyOrderCreated_fold_products:
  "products (foldl (\<lambda>s ownerId. notifyOrderCreated e s ord ownerId) st ownerIds) = products st"
  by (induction ownerIds arbitrary: st) (simp_all add: notifyOrderCreated_products)

text \<open>
  Claim C10. The stock check of order creation accepts a list of line items exactly when
  each of them, taken alone, references an existing product whose stored stock holds its
  quantity: quantities of line items with the same product id are not added up. So the
  request with two line items of quantity 3 for the product \<open>A\<close>, whose stock is 5, is
  accepted with 201, and the stored stock of \<open>A\<close> after the two decrements is \<open>-1\<close>.
\<close>

theorem stock_check_is_per_line_item:
  "(\<exists>result. check_items e st items running acc = Inr result) = list_all (available st) items \<and>
   body_items ex_double_req =
     [\<lparr>li_productId = ''A'', li_quantity = 3\<rparr>, \<lparr>li_productId = ''A'', li_quantity = 3\<rparr>] \<and>
   map_option p_stock (products ex_db ''A'') = Some 5 \<and>
   status (fst (post_order ex_env ex_db ex_double_req)) = 201 \<and>
   map_option p_stock (products (snd (post_order ex_env ex_db ex_double_req)) ''A'') = Some (- 1)"
proof -
  let ?user = "\<lparr>i_id = ''u1'', i_email = ''u1@x'', i_role = ''user''\<rparr>"
  have items: "body_items ex_double_req =
      [\<lparr>li_productId = ''A'', li_quantity = 3\<rparr>, \<lparr>li_productId = ''A'', li_quantity = 3\<rparr>]"
    by (simp add: ex_double_req_def)
  have h1: "authenticateUser ex_env ex_db ex_double_req = Inr ?user"
    by (simp add: authenticateUser_def extractToken_def ex_double_req_def ex_order_req_def
        ex_req_def ex_env_def ex_verify_def ex_db_def)
  have h2: "createOrderValidation ex_double_req = []"
    by code_simp
  have h3: "\<forall>item\<in>set (body_items ex_double_req). available ex_db item"
    by (simp add: items available_def ex_db_def ex_A_def)
  have h4: "order_findUnique ex_db (new_id ex_double_req) = None"
    by (simp add: order_findUnique_def ex_db_def)
  have old: "map_option p_stock (products ex_db ''A'') = Some 5"
    by (simp add: ex_db_def ex_A_def)
  have accepted: "status (fst (post_order ex_env ex_db ex_double_req)) = 201"
    unfolding post_order_handler [OF h1 h2] create_order_accepted [OF h3 h4]
    by (simp add: reply_def)
  have "products (snd (post_order ex_env ex_db ex_double_req)) =
      stock_after ex_db (body_items ex_double_req)"
    unfolding post_order_handler [OF h1 h2] create_order_accepted [OF h3 h4]
    by (simp add: notifyOrderCreated_fold_products)
  then have new: "map_option p_stock (products (snd (post_order ex_env ex_db ex_double_req)) ''A'')
      = Some (- 1)"
    by (simp add: items stock_after_def requested_def ex_db_def ex_A_def)
  show ?thesis
    using check_items_accepts_iff [of e st items running acc] items old accepted new by blast
qed

section \<open>Order status and confirmation: properties\<close>

lemma receipt_of_example: "receipt_of ex_confirm_req = ''RCP-20260115-K3J9X1Q8''"
  by code_simp

subsection \<open>The invariant of the orders table\<close>

lemma notification_create_orders:
  "notification_create e st n = Inr st' \<Longrightarrow> orders st' = orders st"
  by (auto simp: notification_create_def split: option.splits)

lemma notifyUser_orders: "orders (notifyUser e st userId t ti m l) = orders st"
  by (simp add: notifyUser_def notification_create_def split: option.splits)

lemma notifyOwner_orders: "orders (notifyOwner e st ownerId t ti m l) = orders st"
  by (simp add: notifyOwner_def notification_create_def split: option.splits)

lemma notifyOrderCreated_fold_orders:
  "orders (foldl (\<lambda>s ownerId. notifyOrderCreated e s ord ownerId) st ownerIds) = orders st"
  by (induction ownerIds arbitrary: st) (simp_all add: notifyOrderCreated_def notifyOwner_orders)

lemma decrement_stock_orders: "orders (snd (decrement_stock st items)) = orders st"
  by (induction st items rule: decrement_stock.induct) (auto split: option.splits)

lemma create_notifications_orders: "orders (snd (create_notifications e st ns)) = orders st"
  by (induction e st ns rule: create_notifications.induct)
    (auto split: sum.splits dest: notification_create_orders)

lemma create_notifications_result:
  "create_notifications e st ns = (r, st') \<Longrightarrow> orders st' = orders st"
  using create_notifications_orders [of e st ns] by simp

lemma same_orders_keep:
  "orders st' = orders st \<Longrightarrow> completed_have_receipt st' = completed_have_receipt st"
  by (simp add: completed_have_receipt_def)

lemma order_update_orders:
  "order_update st i change = Inr (updated, st1) \<Longrightarrow>
   orders st1 = map (\<lambda>row. if o_id row = i then change row else row) (orders st)"
  by (auto simp: order_update_def split: option.splits)

lemma order_update_keeps:
  assumes "order_update st i change = Inr (updated, st1)"
    and "\<And>row. receipted (change row)"
    and "completed_have_receipt st"
  shows "completed_have_receipt st1"
  using assms(2,3) unfolding completed_have_receipt_def order_update_orders [OF assms(1)]
  by (auto simp: list_all_iff)

lemma create_order_keeps:
  assumes "completed_have_receipt st"
  shows "completed_have_receipt (snd (create_order e user st req))"
proof (cases "check_items e st (body_items req) (Finite 0) []")
  case (Inl answer)
  then show ?thesis using assms by (simp add: create_order_def)
next
  case (Inr checked)
  obtain order_total orderItems where c: "checked = (order_total, orderItems)"
    by (cases checked)
  let ?ord = "\<lparr>o_id = new_id req, o_userId = i_id user, o_total = order_total,
                       o_status = ''pending'', o_receiptNumber = None, o_completedAt = None,
                       o_shippingAddress = trim (body_shippingAddress req),
                       o_shippingCity = trim (body_shippingCity req),
                       o_shippingZip = trim (body_shippingZip req),
                       o_items = orderItems\<rparr>"
  have new: "receipted ?ord" by (simp add: receipted_def)
  have "orders (snd (create_order e user st req)) = orders st \<or>
        orders (snd (create_order e user st req)) = orders st @ [?ord]"
    using decrement_stock_orders [of "st\<lparr>orders := orders st @ [?ord]\<rparr>" "body_items req"]
    by (auto simp: create_order_def Inr c order_create_def Let_def notifyOrderCreated_fold_orders
        split: option.splits prod.splits)
  with new assms show ?thesis
    by (auto simp: completed_have_receipt_def)
qed

lemma cancel_order_keeps:
  assumes "completed_have_receipt st"
  shows "completed_have_receipt (snd (cancel_order user st req))"
proof -
  have "receipted (row\<lparr>o_status := ''cancelled''\<rparr>)" for row
    by (simp add: receipted_def)
  then show ?thesis
    using assms
    by (auto simp: cancel_order_def split: option.splits sum.splits
        intro: order_update_keeps)
qed

lemma update_status_keeps:
  assumes "completed_have_receipt st" and "body_status req \<in> set accepted_statuses"
  shows "completed_have_receipt (snd (update_status e user st req))"
proof -
  have "body_status req \<noteq> ''completed''"
    using assms(2) by (auto simp: accepted_statuses_def)
  then have "receipted (row\<lparr>o_status := body_status req\<rparr>)" for row
    by (simp add: receipted_def)
  then show ?thesis
    using assms(1)
    by (auto simp: update_status_def completed_have_receipt_def notifyOrderStatusChanged_def
        notifyUser_orders list_all_iff
        split: option.splits sum.splits dest!: order_update_orders)
qed

lemma confirm_order_keeps:
  assumes "completed_have_receipt st"
  shows "completed_have_receipt (snd (confirm_order e user st req))"
proof -
  have "receipted (row\<lparr>o_receiptNumber := Some r, o_completedAt := c, o_status := ''completed''\<rparr>)"
    for row r c
    by (simp add: receipted_def)
  then show ?thesis
    using assms
    by (auto simp: confirm_order_def Let_def
        split: option.splits sum.splits prod.splits
        dest!: create_notifications_result same_orders_keep
        intro: order_update_keeps)
qed

lemma route_keeps:
  assumes "completed_have_receipt st"
    and "\<And>user. completed_have_receipt (snd (rest user st req))"
  shows "completed_have_receipt (snd (route middleware e rest st req))"
  using assms by (simp add: route_def split: sum.splits)

lemma orders_router_keeps:
  assumes "completed_have_receipt st"
  shows "completed_have_receipt (snd (orders_router e ep st req))"
proof (cases ep)
  case PostOrder
  then show ?thesis
    using assms
    by (auto simp: post_order_def validate_def intro!: route_keeps create_order_keeps)
next
  case PutCancel
  then show ?thesis
    using assms by (auto simp: put_cancel_def intro!: route_keeps cancel_order_keeps)
next
  case PutStatus
  then show ?thesis
    using assms
    by (auto simp: put_status_def validate_def statusValidation_def
        intro!: route_keeps update_status_keeps)
next
  case PutConfirm
  then show ?thesis
    using assms by (auto simp: put_confirm_def intro!: route_keeps confirm_order_keeps)
qed

text \<open>
  Claim C9. The mutating endpoints of the order router keep the invariant that every
  order with the status \<open>completed\<close> has a receipt identifier: from a store where it
  holds (in particular from one without orders), it holds after any sequence of requests
  to these endpoints, whatever the requests are. The status endpoint accepts only the
  five statuses of its validator, which do not include \<open>completed\<close>, and the
  confirmation writes the receipt identifier in the same update as the status.
\<close>

theorem completed_orders_have_receipts:
  assumes "completed_have_receipt st"
  shows "completed_have_receipt (serve e st requests)"
  using assms
proof (induction requests arbitrary: st)
  case Nil
  then show ?case by simp
next
  case (Cons request rest)
  obtain ep req where r: "request = (ep, req)" by (cases request)
  from Cons.prems have "completed_have_receipt (snd (orders_router e ep st req))"
    by (rule orders_router_keeps)
  from Cons.IH [OF this] show ?case by (simp add: r)
qed

lemma ex_session_orders:
  "map (\<lambda>ord. (o_id ord, o_status ord, o_receiptNumber ord)) (orders (serve ex_env ex_db ex_session)) =
     [(''ord-0001'', ''completed'', Some ''RCP-20260115-K3J9X1Q8'')]"
  by code_simp

theorem completed_orders_have_receipts_witness:
  "completed_have_receipt ex_db \<and>
   completed_have_receipt (serve ex_env ex_db ex_session) \<and>
   map (\<lambda>ord. (o_id ord, o_status ord, o_receiptNumber ord)) (orders (serve ex_env ex_db ex_session)) =
     [(''ord-0001'', ''completed'', Some ''RCP-20260115-K3J9X1Q8'')]"
proof -
  have h: "completed_have_receipt ex_db"
    by (simp add: completed_have_receipt_def ex_db_def)
  from completed_orders_have_receipts [OF h, of ex_env ex_session] h ex_session_orders
  show ?thesis by simp
qed

subsection \<open>Status update\<close>

lemma errorHandler_TypeError: "errorHandler TypeError = reply 500 (Error ''Cannot read properties of null'')"
  by (simp add: errorHandler_def TypeError_def)

lemma errorHandler_P2025: "errorHandler P2025 = reply 404 (Error ''Record not found'')"
  by (simp add: errorHandler_def P2025_def)

lemma authenticateOwner_Inl:
  "authenticateOwner e st req = Inl answer \<Longrightarrow> status answer = 401 \<or> status answer = 403"
  by (auto simp: authenticateOwner_def reply_def split: option.splits if_splits)

lemma authenticateOwner_Inr:
  "authenticateOwner e st req = Inr user \<Longrightarrow>
   i_role user = ''owner'' \<and> (\<exists>ow. owners st (i_id user) = Some ow \<and> ow_approved ow)"
  by (auto simp: authenticateOwner_def split: option.splits if_splits)

lemma ownsProduct_Inl: "ownsProduct st uid items = Inl err \<Longrightarrow> err = TypeError"
  by (induction st uid items rule: ownsProduct.induct)
    (auto split: option.splits if_splits)

lemma order_update_found:
  "order_findUnique st i = Some ord \<Longrightarrow>
   order_update st i change =
     Inr (change ord,
          st\<lparr>orders := map (\<lambda>row. if o_id row = i then change row else row) (orders st)\<rparr>)"
  by (simp add: order_update_def)

lemma notifyOrderStatusChanged_result:
  "notifyOrderStatusChanged e st ord newStatus =
     st\<lparr>notifications := notifications st @
        (case notification_failure e (status_changed_notification ord newStatus) of
           None \<Rightarrow> [status_changed_notification ord newStatus]
         | Some err \<Rightarrow> [])\<rparr>"
  by (simp add: notifyOrderStatusChanged_def notifyUser_def notification_create_def
      status_changed_notification_def split: option.splits)

lemma update_status_200:
  assumes "status (fst (update_status e user st req)) = 200"
  shows "\<exists>ord. order_findUnique st (param_id req) = Some ord \<and>
    ownsProduct st (i_id user) (o_items ord) = Inr True"
  using assms
  by (auto simp: update_status_def reply_def errorHandler_TypeError errorHandler_P2025
      split: option.splits sum.splits if_splits dest!: ownsProduct_Inl)

lemma status_changed_notification_updated:
  "status_changed_notification (ord\<lparr>o_status := s\<rparr>) newStatus =
     status_changed_notification ord newStatus"
  by (simp add: status_changed_notification_def)

lemma update_status_owned:
  assumes "order_findUnique st (param_id req) = Some ord"
    and "ownsProduct st (i_id user) (o_items ord) = Inr True"
  shows "update_status e user st req =
    (reply 200 (OrderBody (ord\<lparr>o_status := body_status req\<rparr>)),
     st\<lparr>orders := map (\<lambda>row. if o_id row = param_id req
                              then row\<lparr>o_status := body_status req\<rparr> else row) (orders st),
        notifications := notifications st @
          (case notification_failure e (status_changed_notification ord (body_status req)) of
             None \<Rightarrow> [status_changed_notification ord (body_status req)]
           | Some err \<Rightarrow> [])\<rparr>)"
  using assms
  unfolding update_status_def order_update_found [OF assms(1)] notifyOrderStatusChanged_result
  by (simp add: status_changed_notification_updated cong: option.case_cong)

lemma ownsProduct_step:
  "ownsProduct st uid (item # rest) =
     (case shop_owner st item of
        None \<Rightarrow> Inl TypeError
      | Some ownerId \<Rightarrow> if ownerId = uid then Inr True else ownsProduct st uid rest)"
  by (simp add: shop_owner_def split: option.splits)

lemma ownsProduct_owned:
  "ownsProduct st uid items = Inr True \<Longrightarrow> \<exists>item\<in>set items. shop_owner st item = Some uid"
proof (induction items)
  case Nil
  then show ?case by simp
next
  case (Cons item rest)
  show ?case
  proof (cases "shop_owner st item = Some uid")
    case True
    then show ?thesis by simp
  next
    case False
    with Cons.prems have "ownsProduct st uid rest = Inr True"
      unfolding ownsProduct_step by (simp split: option.splits if_splits)
    from Cons.IH [OF this] show ?thesis by auto
  qed
qed

lemma ownsProduct_on_record:
  "\<forall>item\<in>set items. shop_owner st item \<noteq> None \<Longrightarrow>
   ownsProduct st uid items = Inr (\<exists>item\<in>set items. shop_owner st item = Some uid)"
proof (induction items)
  case Nil
  then show ?case by simp
next
  case (Cons item rest)
  then obtain ownerId where o: "shop_owner st item = Some ownerId" by auto
  from Cons have "ownsProduct st uid rest = Inr (\<exists>item\<in>set rest. shop_owner st item = Some uid)"
    by simp
  with o show ?case unfolding ownsProduct_step by simp
qed

lemma update_status_refused:
  "status (fst (update_status e user st req)) \<noteq> 200 \<Longrightarrow>
   snd (update_status e user st req) = st"
  by (auto simp: update_status_def reply_def split: option.splits sum.splits if_splits)

lemma put_status_refused:
  assumes "status (fst (put_status e st req)) \<noteq> 200"
  shows "snd (put_status e st req) = st"
proof (cases "authenticateOwner e st req")
  case (Inl answer)
  then show ?thesis by (simp add: put_status_def route_def)
next
  case (Inr user)
  show ?thesis
  proof (cases "statusValidation req = []")
    case True
    with Inr assms have "status (fst (update_status e user st req)) \<noteq> 200"
      by (simp add: put_status_def route_def validate_def)
    from update_status_refused [OF this] Inr True show ?thesis
      by (simp add: put_status_def route_def validate_def)
  next
    case False
    with Inr show ?thesis by (simp add: put_status_def route_def validate_def)
  qed
qed

text \<open>
  Claim C6, as amended. A status update that is not answered with 200 leaves the store as
  it was. One that is answered with 200 comes from a request that
  \<^verbatim>\<open>authenticateOwner\<close> let through (an approved Owner), for an order one of whose
  items has a product of a shop of that Owner, and asks for one of the statuses
  \<open>pending\<close>, \<open>processing\<close>, \<open>shipped\<close>, \<open>delivered\<close>, \<open>cancelled\<close>. Conversely,
  such a request by the owner of the shop of an item, for an order whose items all have
  their product and shop on record, is answered with 200 whatever the status of the order
  was: the stored order gets the requested status, and one \<open>status changed\<close>
  notification addressed to the user of the order is handed to the store (it is written
  unless the store refuses the write). A request of an approved Owner for any other
  status, \<open>completed\<close> included, is answered with 400 and changes nothing.
\<close>

theorem status_update_permissive:
  "(status (fst (put_status e st req)) \<noteq> 200 \<longrightarrow> snd (put_status e st req) = st) \<and>
   (status (fst (put_status e st req)) = 200 \<longrightarrow>
      (\<exists>user ow ord.
         authenticateOwner e st req = Inr user \<and> i_role user = ''owner'' \<and>
         owners st (i_id user) = Some ow \<and> ow_approved ow \<and>
         order_findUnique st (param_id req) = Some ord \<and>
         (\<exists>item\<in>set (o_items ord). shop_owner st item = Some (i_id user)) \<and>
         body_status req \<in> {''pending'', ''processing'', ''shipped'', ''delivered'', ''cancelled''})) \<and>
   (authenticateOwner e st req = Inr owner \<and>
    body_status req \<in> {''pending'', ''processing'', ''shipped'', ''delivered'', ''cancelled''} \<and>
    order_findUnique st (param_id req) = Some ord \<and>
    (\<forall>item\<in>set (o_items ord). shop_owner st item \<noteq> None) \<and>
    (\<exists>item\<in>set (o_items ord). shop_owner st item = Some (i_id owner)) \<longrightarrow>
      put_status e st req =
        (\<lparr>status = 200, body = OrderBody (ord\<lparr>o_status := body_status req\<rparr>)\<rparr>,
         st\<lparr>orders := map (\<lambda>row. if o_id row = param_id req
                                  then row\<lparr>o_status := body_status req\<rparr> else row) (orders st),
            notifications := notifications st @
              (case notification_failure e (status_changed_notification ord (body_status req)) of
                 None \<Rightarrow> [status_changed_notification ord (body_status req)]
               | Some err \<Rightarrow> [])\<rparr>) \<and>
      n_userId (status_changed_notification ord (body_status req)) = Some (o_userId ord)) \<and>
   (authenticateOwner e st req = Inr owner \<and>
    body_status req \<notin> {''pending'', ''processing'', ''shipped'', ''delivered'', ''cancelled''} \<longrightarrow>
      put_status e st req =
        (\<lparr>status = 400, body = ValidationFailed [''Invalid status'']\<rparr>, st))"
proof (intro conjI impI)
  assume "status (fst (put_status e st req)) \<noteq> 200"
  then show "snd (put_status e st req) = st" by (rule put_status_refused)
next
  assume ok: "status (fst (put_status e st req)) = 200"
  then obtain user where auth: "authenticateOwner e st req = Inr user"
    by (cases "authenticateOwner e st req")
      (auto simp: put_status_def route_def dest: authenticateOwner_Inl)
  from ok auth have valid: "body_status req \<in> set accepted_statuses"
    by (auto simp: put_status_def route_def validate_def statusValidation_def reply_def
        split: if_splits)
  with ok auth have "status (fst (update_status e user st req)) = 200"
    by (simp add: put_status_def route_def validate_def statusValidation_def)
  then obtain ord where found: "order_findUnique st (param_id req) = Some ord"
    and owns: "ownsProduct st (i_id user) (o_items ord) = Inr True"
    using update_status_200 by blast
  from authenticateOwner_Inr [OF auth] ownsProduct_owned [OF owns] auth found valid
  show "\<exists>user ow ord.
         authenticateOwner e st req = Inr user \<and> i_role user = ''owner'' \<and>
         owners st (i_id user) = Some ow \<and> ow_approved ow \<and>
         order_findUnique st (param_id req) = Some ord \<and>
         (\<exists>item\<in>set (o_items ord). shop_owner st item = Some (i_id user)) \<and>
         body_status req \<in> {''pending'', ''processing'', ''shipped'', ''delivered'', ''cancelled''}"
    by (auto simp: accepted_statuses_def)
next
  assume h: "authenticateOwner e st req = Inr owner \<and>
    body_status req \<in> {''pending'', ''processing'', ''shipped'', ''delivered'', ''cancelled''} \<and>
    order_findUnique st (param_id req) = Some ord \<and>
    (\<forall>item\<in>set (o_items ord). shop_owner st item \<noteq> None) \<and>
    (\<exists>item\<in>set (o_items ord). shop_owner st item = Some (i_id owner))"
  then have valid: "statusValidation req = []"
    by (auto simp: statusValidation_def accepted_statuses_def)
  from h have owns: "ownsProduct st (i_id owner) (o_items ord) = Inr True"
    using ownsProduct_on_record [of "o_items ord" st "i_id owner"] by simp
  from h valid owns show "put_status e st req =
        (\<lparr>status = 200, body = OrderBody (ord\<lparr>o_status := body_status req\<rparr>)\<rparr>,
         st\<lparr>orders := map (\<lambda>row. if o_id row = param_id req
                                  then row\<lparr>o_status := body_status req\<rparr> else row) (orders st),
            notifications := notifications st @
              (case notification_failure e (status_changed_notification ord (body_status req)) of
                 None \<Rightarrow> [status_changed_notification ord (body_status req)]
               | Some err \<Rightarrow> [])\<rparr>)"
    by (simp add: put_status_def route_def validate_def update_status_owned reply_def)
next
  show "n_userId (status_changed_notification ord (body_status req)) = Some (o_userId ord)"
    by (simp add: status_changed_notification_def)
next
  assume h: "authenticateOwner e st req = Inr owner \<and>
    body_status req \<notin> {''pending'', ''processing'', ''shipped'', ''delivered'', ''cancelled''}"
  then have "statusValidation req = [''Invalid status'']"
    by (simp add: statusValidation_def accepted_statuses_def)
  with h show "put_status e st req =
        (\<lparr>status = 400, body = ValidationFailed [''Invalid status'']\<rparr>, st)"
    by (simp add: put_status_def route_def validate_def reply_def)
qed

lemma ex_owner:
  "authenticateOwner ex_env ex_db_delivered (ex_status_req s) =
     Inr \<lparr>i_id = ''o1'', i_email = ''o1@x'', i_role = ''owner''\<rparr>"
  by (simp add: authenticateOwner_def extractToken_def ex_status_req_def ex_req_def ex_env_def
      ex_verify_def ex_db_delivered_def ex_db_def)

lemma ex_order_found: "order_findUnique ex_db_delivered ''ord-0001'' = Some ex_order"
  by (simp add: order_findUnique_def ex_db_delivered_def ex_order_def)

lemma ex_order_owned: "ownsProduct ex_db_delivered ''o1'' (o_items ex_order) = Inr True"
  by (simp add: ex_db_delivered_def ex_db_def ex_order_def ex_A_def)

lemma ex_order_on_record:
  "shop_owner ex_db_delivered \<lparr>oi_productId = ''A'', oi_quantity = 2, oi_price = Finite 10\<rparr> = Some ''o1'' \<and>
   shop_owner ex_db_delivered \<lparr>oi_productId = ''B'', oi_quantity = 1, oi_price = Finite 5\<rparr> = Some ''o1''"
  by (simp add: shop_owner_def ex_db_delivered_def ex_db_def ex_A_def ex_B_def)

theorem status_update_permissive_witness:
  "authenticateOwner ex_env ex_db_delivered (ex_status_req ''pending'') =
     Inr \<lparr>i_id = ''o1'', i_email = ''o1@x'', i_role = ''owner''\<rparr> \<and>
   order_findUnique ex_db_delivered (param_id (ex_status_req ''pending'')) = Some ex_order \<and>
   o_status ex_order = ''delivered'' \<and>
   map (shop_owner ex_db_delivered) (o_items ex_order) = [Some ''o1'', Some ''o1''] \<and>
   fst (put_status ex_env ex_db_delivered (ex_status_req ''pending'')) =
     \<lparr>status = 200, body = OrderBody (ex_order\<lparr>o_status := ''pending''\<rparr>)\<rparr> \<and>
   orders (snd (put_status ex_env ex_db_delivered (ex_status_req ''pending''))) =
     [ex_order\<lparr>o_status := ''pending''\<rparr>] \<and>
   notifications (snd (put_status ex_env ex_db_delivered (ex_status_req ''pending''))) =
     [\<lparr>n_userId = Some ''u1'', n_ownerId = None, n_adminId = None, n_type = ''order'',
       n_title = ''Order Pending'', n_message = ''Your order status changed to pending'',
       n_link = ''/profile/orders''\<rparr>] \<and>
   authenticateOwner ex_env ex_db_delivered (ex_status_req ''refunded'') =
     Inr \<lparr>i_id = ''o1'', i_email = ''o1@x'', i_role = ''owner''\<rparr> \<and>
   status (fst (put_status ex_env ex_db_delivered (ex_status_req ''refunded''))) = 400 \<and>
   snd (put_status ex_env ex_db_delivered (ex_status_req ''refunded'')) = ex_db_delivered \<and>
   (\<exists>ow. owners ex_db_delivered ''o1'' = Some ow \<and> ow_approved ow)"
proof -
  let ?req = "ex_status_req ''pending''"
  let ?other = "ex_status_req ''refunded''"
  let ?owner = "\<lparr>i_id = ''o1'', i_email = ''o1@x'', i_role = ''owner''\<rparr>"
  have h1: "authenticateOwner ex_env ex_db_delivered ?req = Inr ?owner"
    by (rule ex_owner)
  have h2: "body_status ?req \<in> {''pending'', ''processing'', ''shipped'', ''delivered'', ''cancelled''}"
    by (simp add: ex_status_req_def)
  have h3: "order_findUnique ex_db_delivered (param_id ?req) = Some ex_order"
    using ex_order_found by (simp add: ex_status_req_def)
  have items: "o_items ex_order =
      [\<lparr>oi_productId = ''A'', oi_quantity = 2, oi_price = Finite 10\<rparr>,
       \<lparr>oi_productId = ''B'', oi_quantity = 1, oi_price = Finite 5\<rparr>]"
    by (simp add: ex_order_def)
  have owners: "map (shop_owner ex_db_delivered) (o_items ex_order) = [Some ''o1'', Some ''o1'']"
    using ex_order_on_record by (simp add: items)
  have h4: "\<forall>item\<in>set (o_items ex_order). shop_owner ex_db_delivered item \<noteq> None"
    using ex_order_on_record by (simp add: items)
  have h5: "\<exists>item\<in>set (o_items ex_order). shop_owner ex_db_delivered item = Some (i_id ?owner)"
    using ex_order_on_record by (simp add: items)
  have n: "status_changed_notification ex_order ''pending'' =
      \<lparr>n_userId = Some ''u1'', n_ownerId = None, n_adminId = None, n_type = ''order'',
       n_title = ''Order Pending'', n_message = ''Your order status changed to pending'',
       n_link = ''/profile/orders''\<rparr>"
    by code_simp
  have written: "notification_failure ex_env n = None" for n
    by (simp add: ex_env_def)
  have d: "o_status ex_order = ''delivered''"
    by (simp add: ex_order_def)
  from status_update_permissive [of ex_env ex_db_delivered ?req ?owner ex_order] h1 h2 h3 h4 h5
  have "put_status ex_env ex_db_delivered ?req =
        (\<lparr>status = 200, body = OrderBody (ex_order\<lparr>o_status := body_status ?req\<rparr>)\<rparr>,
         ex_db_delivered\<lparr>orders := map (\<lambda>row. if o_id row = param_id ?req
                                  then row\<lparr>o_status := body_status ?req\<rparr> else row)
                               (orders ex_db_delivered),
            notifications := notifications ex_db_delivered @
              (case notification_failure ex_env (status_changed_notification ex_order (body_status ?req)) of
                 None \<Rightarrow> [status_changed_notification ex_order (body_status ?req)]
               | Some err \<Rightarrow> [])\<rparr>)"
    by blast
  then have accepted: "fst (put_status ex_env ex_db_delivered ?req) =
       \<lparr>status = 200, body = OrderBody (ex_order\<lparr>o_status := ''pending''\<rparr>)\<rparr> \<and>
     orders (snd (put_status ex_env ex_db_delivered ?req)) = [ex_order\<lparr>o_status := ''pending''\<rparr>] \<and>
     notifications (snd (put_status ex_env ex_db_delivered ?req)) =
       [status_changed_notification ex_order ''pending'']"
    by (simp add: written ex_status_req_def ex_db_delivered_def ex_db_def ex_order_def)
  have o1: "authenticateOwner ex_env ex_db_delivered ?other = Inr ?owner"
    by (rule ex_owner)
  have o2: "body_status ?other \<notin> {''pending'', ''processing'', ''shipped'', ''delivered'', ''cancelled''}"
    by (simp add: ex_status_req_def)
  from status_update_permissive [of ex_env ex_db_delivered ?other ?owner] o1 o2
  have "put_status ex_env ex_db_delivered ?other =
        (\<lparr>status = 400, body = ValidationFailed [''Invalid status'']\<rparr>, ex_db_delivered)"
    by blast
  then have refused: "status (fst (put_status ex_env ex_db_delivered ?other)) = 400"
    by simp
  then have "status (fst (put_status ex_env ex_db_delivered ?other)) \<noteq> 200"
    by simp
  with status_update_permissive [of ex_env ex_db_delivered ?other]
  have unchanged: "snd (put_status ex_env ex_db_delivered ?other) = ex_db_delivered"
    by blast
  from accepted have "status (fst (put_status ex_env ex_db_delivered ?req)) = 200"
    by simp
  with status_update_permissive [of ex_env ex_db_delivered ?req]
  obtain user ow where "authenticateOwner ex_env ex_db_delivered ?req = Inr user"
    and "owners ex_db_delivered (i_id user) = Some ow" and "ow_approved ow"
    by blast
  with h1 have approved: "\<exists>ow. owners ex_db_delivered ''o1'' = Some ow \<and> ow_approved ow"
    by auto
  from accepted refused unchanged approved h1 h3 d owners o1 show ?thesis
    unfolding n by simp
qed

text \<open>
  The claim as stated (any of the enumerated order statuses is accepted) fails for the
  status \<open>completed\<close> of the data model: the validator of the endpoint rejects it with
  400, and the order is left as it was.
\<close>

theorem status_completed_rejected_counterexample:
  "authenticateOwner ex_env ex_db_delivered (ex_status_req ''completed'') =
     Inr \<lparr>i_id = ''o1'', i_email = ''o1@x'', i_role = ''owner''\<rparr> \<and>
   order_findUnique ex_db_delivered (param_id (ex_status_req ''completed'')) = Some ex_order \<and>
   ownsProduct ex_db_delivered ''o1'' (o_items ex_order) = Inr True \<and>
   put_status ex_env ex_db_delivered (ex_status_req ''completed'') =
     (\<lparr>status = 400, body = ValidationFailed [''Invalid status'']\<rparr>, ex_db_delivered)"
proof -
  have "statusValidation (ex_status_req ''completed'') = [''Invalid status'']"
    by (simp add: statusValidation_def accepted_statuses_def ex_status_req_def)
  then have "put_status ex_env ex_db_delivered (ex_status_req ''completed'') =
     (\<lparr>status = 400, body = ValidationFailed [''Invalid status'']\<rparr>, ex_db_delivered)"
    by (simp add: put_status_def route_def ex_owner validate_def reply_def)
  with ex_owner [of "''completed''"] ex_order_found ex_order_owned show ?thesis
    by (simp add: ex_status_req_def)
qed

subsection \<open>Confirmation\<close>

lemma errorHandler_body: "body (errorHandler err) \<noteq> ConfirmBody m r updated"
  by (simp add: errorHandler_def reply_def)

lemma authenticateUser_depends:
  "users st' = users st \<Longrightarrow> extractToken req' = extractToken req \<Longrightarrow>
   authenticateUser e st' req' = authenticateUser e st req"
  by (simp add: authenticateUser_def split: option.splits)

lemma notification_create_users:
  "notification_create e st n = Inr st' \<Longrightarrow> users st' = users st"
  by (auto simp: notification_create_def split: option.splits)

lemma create_notifications_users: "users (snd (create_notifications e st ns)) = users st"
  by (induction e st ns rule: create_notifications.induct)
    (auto split: sum.splits dest: notification_create_users)

lemma find_updated:
  assumes "\<And>row. o_id (change row) = o_id row"
  shows "find (\<lambda>ord. o_id ord = i) (map (\<lambda>row. if o_id row = i then change row else row) rows) =
    map_option change (find (\<lambda>ord. o_id ord = i) rows)"
  by (induction rows) (simp_all add: assms)

lemma confirm_order_confirmed:
  assumes "body (fst (confirm_order e user st req)) = ConfirmBody m r updated"
  shows "\<exists>ord. order_findUnique st (param_id req) = Some ord \<and>
    o_userId ord = i_id user \<and> o_status ord = ''delivered'' \<and>
    truthy (o_receiptNumber ord) = None \<and> r = receipt_of req \<and>
    updated = ord\<lparr>o_receiptNumber := Some (receipt_of req),
                   o_completedAt := Some (now_iso req), o_status := ''completed''\<rparr> \<and>
    users (snd (confirm_order e user st req)) = users st \<and>
    orders (snd (confirm_order e user st req)) =
      map (\<lambda>row. if o_id row = param_id req
                 then row\<lparr>o_receiptNumber := Some (receipt_of req),
                          o_completedAt := Some (now_iso req), o_status := ''completed''\<rparr>
                 else row) (orders st)"
proof (cases "order_findUnique st (param_id req)")
  case None
  with assms show ?thesis by (simp add: confirm_order_def reply_def)
next
  case (Some ord)
  let ?change = "\<lambda>row. row\<lparr>o_receiptNumber := Some (receipt_of req),
                          o_completedAt := Some (now_iso req), o_status := ''completed''\<rparr>"
  let ?st1 = "st\<lparr>orders := map (\<lambda>row. if o_id row = param_id req then ?change row else row) (orders st)\<rparr>"
  let ?ns = "map (completed_notification ord (receipt_of req)) (confirm_owner_ids st (o_items ord) [])"
  from assms Some have u: "o_userId ord = i_id user" and d: "o_status ord = ''delivered''"
    and t: "truthy (o_receiptNumber ord) = None"
    by (auto simp: confirm_order_def reply_def split: if_splits option.splits)
  have upd: "order_update st (param_id req) ?change = Inr (?change ord, ?st1)"
    using Some by (simp add: order_update_def)
  obtain failure st2 where c: "create_notifications e ?st1 ?ns = (failure, st2)"
    by (cases "create_notifications e ?st1 ?ns")
  have result: "confirm_order e user st req =
     (case failure of
        Some err \<Rightarrow> (errorHandler err, st2)
      | None \<Rightarrow> (reply 200 (ConfirmBody ''Order confirmed successfully'' (receipt_of req) (?change ord)), st2))"
    using Some u d t upd c by (simp add: confirm_order_def Let_def)
  with assms have f: "failure = None" and r: "r = receipt_of req" and up: "updated = ?change ord"
    by (auto simp: reply_def errorHandler_body split: option.splits)
  have "users st2 = users ?st1" and "orders st2 = orders ?st1"
    using create_notifications_users [of e ?st1 ?ns] create_notifications_orders [of e ?st1 ?ns] c
    by simp_all
  with result f Some u d t r up show ?thesis by simp
qed

lemma put_confirm_handler:
  "authenticateUser e st req = Inr user \<Longrightarrow> put_confirm e st req = confirm_order e user st req"
  by (simp add: put_confirm_def route_def)

lemma put_confirm_confirmed:
  assumes "body (fst (put_confirm e st req)) = ConfirmBody m r updated"
  shows "\<exists>user. authenticateUser e st req = Inr user \<and>
    body (fst (confirm_order e user st req)) = ConfirmBody m r updated \<and>
    snd (put_confirm e st req) = snd (confirm_order e user st req)"
  using assms
  by (cases "authenticateUser e st req")
    (auto simp: put_confirm_def route_def authenticateUser_def reply_def
      split: option.splits if_splits)

text \<open>
  The answer \<open>Order has already been confirmed\<close> is given exactly for an order that
  is \<open>delivered\<close> and has a receipt identifier.
\<close>

lemma already_confirmed_needs_delivered:
  assumes "authenticateUser e st req = Inr user"
    and "order_findUnique st (param_id req) = Some ord" and "o_userId ord = i_id user"
  shows "put_confirm e st req =
      (\<lparr>status = 400, body = ErrorReceipt ''Order has already been confirmed'' r\<rparr>, st) \<longleftrightarrow>
    o_status ord = ''delivered'' \<and> truthy (o_receiptNumber ord) = Some r"
proof -
  have "o_status ord = ''delivered'' \<Longrightarrow> truthy (o_receiptNumber ord) = None \<Longrightarrow>
      body (fst (confirm_order e user st req)) \<noteq> ErrorReceipt ''Order has already been confirmed'' r"
    using assms(2,3)
    by (auto simp: confirm_order_def Let_def order_update_found reply_def errorHandler_def
        split: prod.splits option.splits)
  then show ?thesis
    unfolding put_confirm_handler [OF assms(1)]
    using assms(2,3)
    by (cases "truthy (o_receiptNumber ord)")
      (auto simp: confirm_order_def reply_def)
qed

text \<open>
  Claim C3: what the code does on the second confirmation. When a confirmation has
  succeeded (its answer carries the receipt), the receipt has the form computed by
  \<open>receipt_of\<close> and the stored order is \<open>completed\<close> with that receipt. A second
  confirmation of the same order with the same credential is then refused by the status
  check, with 400 and the message \<open>Can only confirm delivered orders\<close>: the check for
  an existing receipt, which would answer \<open>Order has already been confirmed\<close> with the
  receipt, is not reached.
\<close>

theorem second_confirm_refused_by_status_check:
  assumes first: "body (fst (put_confirm e st req)) = ConfirmBody m r updated"
    and same_credential: "extractToken req' = extractToken req"
    and same_order: "param_id req' = param_id req"
  shows "r = receipt_of req \<and>
    order_findUnique (snd (put_confirm e st req)) (param_id req) = Some updated \<and>
    o_status updated = ''completed'' \<and> o_receiptNumber updated = Some r \<and>
    put_confirm e (snd (put_confirm e st req)) req' =
      (\<lparr>status = 400, body = Error ''Can only confirm delivered orders''\<rparr>,
       snd (put_confirm e st req))"
proof -
  let ?st1 = "snd (put_confirm e st req)"
  let ?change = "\<lambda>row. row\<lparr>o_receiptNumber := Some (receipt_of req),
                          o_completedAt := Some (now_iso req), o_status := ''completed''\<rparr>"
  obtain user where auth: "authenticateUser e st req = Inr user"
    and b: "body (fst (confirm_order e user st req)) = ConfirmBody m r updated"
    and s: "?st1 = snd (confirm_order e user st req)"
    using put_confirm_confirmed [OF first] by blast
  obtain ord where found: "order_findUnique st (param_id req) = Some ord"
    and owner: "o_userId ord = i_id user"
    and r: "r = receipt_of req" and up: "updated = ?change ord"
    and users: "users ?st1 = users st"
    and orders: "orders ?st1 =
      map (\<lambda>row. if o_id row = param_id req then ?change row else row) (orders st)"
    using confirm_order_confirmed [OF b] unfolding s by blast
  have found1: "order_findUnique ?st1 (param_id req) = Some updated"
    unfolding order_findUnique_def orders
    using found by (simp add: find_updated order_findUnique_def up)
  have auth1: "authenticateUser e ?st1 req' = Inr user"
    using authenticateUser_depends [OF users same_credential] auth by simp
  have "confirm_order e user ?st1 req' =
      (reply 400 (Error ''Can only confirm delivered orders''), ?st1)"
    using found1 owner by (simp add: confirm_order_def same_order up)
  then have "put_confirm e ?st1 req' =
      (\<lparr>status = 400, body = Error ''Can only confirm delivered orders''\<rparr>, ?st1)"
    unfolding put_confirm_handler [OF auth1] by (simp add: reply_def)
  with r found1 up show ?thesis by simp
qed

lemma ex_first_confirm:
  "fst (put_confirm ex_env ex_db_delivered ex_confirm_req) =
     \<lparr>status = 200,
       body = ConfirmBody ''Order confirmed successfully'' ''RCP-20260115-K3J9X1Q8''
         (ex_order\<lparr>o_receiptNumber := Some ''RCP-20260115-K3J9X1Q8'',
                    o_completedAt := Some ''2026-01-15T10:00:00.000Z'',
                    o_status := ''completed''\<rparr>)\<rparr>"
  by code_simp

theorem second_confirm_refused_by_status_check_witness:
  "fst (put_confirm ex_env ex_db_delivered ex_confirm_req) =
     \<lparr>status = 200,
       body = ConfirmBody ''Order confirmed successfully'' ''RCP-20260115-K3J9X1Q8''
         (ex_order\<lparr>o_receiptNumber := Some ''RCP-20260115-K3J9X1Q8'',
                    o_completedAt := Some ''2026-01-15T10:00:00.000Z'',
                    o_status := ''completed''\<rparr>)\<rparr> \<and>
   fst (put_confirm ex_env (snd (put_confirm ex_env ex_db_delivered ex_confirm_req)) ex_confirm_req) =
     \<lparr>status = 400, body = Error ''Can only confirm delivered orders''\<rparr> \<and>
   map o_receiptNumber
     (orders (snd (put_confirm ex_env (snd (put_confirm ex_env ex_db_delivered ex_confirm_req))
        ex_confirm_req))) = [Some ''RCP-20260115-K3J9X1Q8'']"
proof -
  let ?updated = "ex_order\<lparr>o_receiptNumber := Some ''RCP-20260115-K3J9X1Q8'',
                    o_completedAt := Some ''2026-01-15T10:00:00.000Z'',
                    o_status := ''completed''\<rparr>"
  have h: "body (fst (put_confirm ex_env ex_db_delivered ex_confirm_req)) =
      ConfirmBody ''Order confirmed successfully'' ''RCP-20260115-K3J9X1Q8'' ?updated"
    by (simp add: ex_first_confirm)
  have stored: "map o_receiptNumber (orders (snd (put_confirm ex_env ex_db_delivered ex_confirm_req)))
      = [Some ''RCP-20260115-K3J9X1Q8'']"
    by code_simp
  from second_confirm_refused_by_status_check [OF h refl refl] ex_first_confirm stored
  show ?thesis by simp
qed

section \<open>Notification fan-out: properties\<close>

lemma put_status_answer_without_notification:
  "fst (put_status (e\<lparr>notification_failure := f\<rparr>) st req) = fst (put_status e st req)"
  by (simp add: put_status_def route_def authenticateOwner_def validate_def update_status_def
      split: option.splits sum.splits prod.splits)

lemma check_items_without_notification:
  "check_items (e\<lparr>notification_failure := f\<rparr>) st items running acc =
     check_items e st items running acc"
  by (induction items arbitrary: running acc) (simp_all split: option.splits)

lemma post_order_answer_without_notification:
  "fst (post_order (e\<lparr>notification_failure := f\<rparr>) st req) = fst (post_order e st req)"
  by (simp add: post_order_def route_def authenticateUser_def validate_def create_order_def Let_def
      check_items_without_notification
      split: option.splits sum.splits prod.splits)

lemma put_approve_handler:
  "authenticateAdmin e st req = Inr admin \<Longrightarrow> put_approve e st req = approve_product e admin st req"
  by (simp add: put_approve_def route_def)

text \<open>
  Claim C7: what the code does where the notification is written directly. When the store
  refuses the first notification of a confirmation, the confirmation is answered by the
  error translator with the exception of the write, although the order has been updated
  (receipt assigned, status \<open>completed\<close>) and stays so. Likewise, when the store refuses
  the notification of a product approval, the approval is answered by the error
  translator, although the product has been set to \<open>approved\<close> and stays so.
\<close>

theorem direct_notification_failure_reaches_client:
  "(authenticateUser e st req = Inr user \<and>
    order_findUnique st (param_id req) = Some ord \<and> o_userId ord = i_id user \<and>
    o_status ord = ''delivered'' \<and> truthy (o_receiptNumber ord) = None \<and>
    confirm_owner_ids st (o_items ord) [] = ownerId # others \<and>
    notification_failure e (completed_notification ord (receipt_of req) ownerId) = Some err \<longrightarrow>
      put_confirm e st req =
        (errorHandler err,
         st\<lparr>orders := map (\<lambda>row. if o_id row = param_id req
                                  then row\<lparr>o_receiptNumber := Some (receipt_of req),
                                           o_completedAt := Some (now_iso req),
                                           o_status := ''completed''\<rparr>
                                  else row) (orders st)\<rparr>)) \<and>
   (authenticateAdmin e st req' = Inr admin \<and>
    products st (param_id req') = Some product \<and> shops st (p_shopId product) = Some shop \<and>
    notification_failure e
      \<lparr>n_userId = None, n_ownerId = Some (s_ownerId shop), n_adminId = None,
        n_type = ''approval'', n_title = ''Product Approved'',
        n_message = ''Your product \"'' @ p_name product @
          ''\" has been approved and is now visible to customers.'',
        n_link = ''/products''\<rparr> = Some err' \<longrightarrow>
      put_approve e st req' =
        (errorHandler err',
         st\<lparr>products := (products st)(param_id req' \<mapsto> product\<lparr>p_status := ''approved''\<rparr>)\<rparr>))"
proof (intro conjI impI)
  assume h: "authenticateUser e st req = Inr user \<and>
    order_findUnique st (param_id req) = Some ord \<and> o_userId ord = i_id user \<and>
    o_status ord = ''delivered'' \<and> truthy (o_receiptNumber ord) = None \<and>
    confirm_owner_ids st (o_items ord) [] = ownerId # others \<and>
    notification_failure e (completed_notification ord (receipt_of req) ownerId) = Some err"
  then have auth: "authenticateUser e st req = Inr user" by simp
  from h show "put_confirm e st req =
        (errorHandler err,
         st\<lparr>orders := map (\<lambda>row. if o_id row = param_id req
                                  then row\<lparr>o_receiptNumber := Some (receipt_of req),
                                           o_completedAt := Some (now_iso req),
                                           o_status := ''completed''\<rparr>
                                  else row) (orders st)\<rparr>)"
    unfolding put_confirm_handler [OF auth]
    by (simp add: confirm_order_def Let_def order_update_found notification_create_def)
next
  assume h: "authenticateAdmin e st req' = Inr admin \<and>
    products st (param_id req') = Some product \<and> shops st (p_shopId product) = Some shop \<and>
    notification_failure e
      \<lparr>n_userId = None, n_ownerId = Some (s_ownerId shop), n_adminId = None,
        n_type = ''approval'', n_title = ''Product Approved'',
        n_message = ''Your product \"'' @ p_name product @
          ''\" has been approved and is now visible to customers.'',
        n_link = ''/products''\<rparr> = Some err'"
  then have auth: "authenticateAdmin e st req' = Inr admin" by simp
  from h show "put_approve e st req' =
        (errorHandler err',
         st\<lparr>products := (products st)(param_id req' \<mapsto> product\<lparr>p_status := ''approved''\<rparr>)\<rparr>)"
    unfolding put_approve_handler [OF auth]
    by (simp add: approve_product_def Let_def notification_create_def)
qed

lemma errorHandler_connection_lost:
  "errorHandler connection_lost = \<lparr>status = 500, body = Error ''Cannot reach database server''\<rparr>"
  by (simp add: errorHandler_def connection_lost_def reply_def)

theorem direct_notification_failure_reaches_client_witness:
  "authenticateUser ex_env_failing ex_db_delivered ex_confirm_req =
     Inr \<lparr>i_id = ''u1'', i_email = ''u1@x'', i_role = ''user''\<rparr> \<and>
   order_findUnique ex_db_delivered (param_id ex_confirm_req) = Some ex_order \<and>
   fst (put_confirm ex_env_failing ex_db_delivered ex_confirm_req) =
     \<lparr>status = 500, body = Error ''Cannot reach database server''\<rparr> \<and>
   map (\<lambda>row. (o_status row, o_receiptNumber row))
     (orders (snd (put_confirm ex_env_failing ex_db_delivered ex_confirm_req))) =
     [(''completed'', Some ''RCP-20260115-K3J9X1Q8'')] \<and>
   authenticateAdmin ex_env_failing ex_db_delivered ex_approve_req =
     Inr \<lparr>i_id = ''a1'', i_email = ''a1@x'', i_role = ''admin''\<rparr> \<and>
   products ex_db_delivered (param_id ex_approve_req) = Some ex_B \<and>
   fst (put_approve ex_env_failing ex_db_delivered ex_approve_req) =
     \<lparr>status = 500, body = Error ''Cannot reach database server''\<rparr> \<and>
   map_option p_status (products (snd (put_approve ex_env_failing ex_db_delivered ex_approve_req)) ''B'') =
     Some ''approved''"
proof -
  let ?user = "\<lparr>i_id = ''u1'', i_email = ''u1@x'', i_role = ''user''\<rparr>"
  let ?admin = "\<lparr>i_id = ''a1'', i_email = ''a1@x'', i_role = ''admin''\<rparr>"
  let ?shop = "\<lparr>s_name = ''Yard two'', s_ownerId = ''o1''\<rparr>"
  have c1: "authenticateUser ex_env_failing ex_db_delivered ex_confirm_req = Inr ?user"
    by (simp add: authenticateUser_def extractToken_def ex_confirm_req_def ex_req_def
        ex_env_failing_def ex_env_def ex_verify_def ex_db_delivered_def ex_db_def)
  have c2: "order_findUnique ex_db_delivered (param_id ex_confirm_req) = Some ex_order"
    using ex_order_found by (simp add: ex_confirm_req_def)
  have c3: "o_userId ex_order = i_id ?user" by (simp add: ex_order_def)
  have c4: "o_status ex_order = ''delivered''" by (simp add: ex_order_def)
  have c5: "truthy (o_receiptNumber ex_order) = None" by (simp add: ex_order_def truthy_def)
  have c6: "confirm_owner_ids ex_db_delivered (o_items ex_order) [] = ''o1'' # []"
    by (simp add: ex_db_delivered_def ex_db_def ex_order_def ex_A_def ex_B_def set_add_def)
  have c7: "notification_failure ex_env_failing n = Some connection_lost" for n
    by (simp add: ex_env_failing_def)
  have a1: "authenticateAdmin ex_env_failing ex_db_delivered ex_approve_req = Inr ?admin"
    by (simp add: authenticateAdmin_def extractToken_def ex_approve_req_def ex_req_def
        ex_env_failing_def ex_env_def ex_verify_def ex_db_delivered_def ex_db_def)
  have a2: "products ex_db_delivered (param_id ex_approve_req) = Some ex_B"
    by (simp add: ex_approve_req_def ex_req_def ex_db_delivered_def ex_db_def)
  have a3: "shops ex_db_delivered (p_shopId ex_B) = Some ?shop"
    by (simp add: ex_db_delivered_def ex_db_def ex_B_def)
  note both = direct_notification_failure_reaches_client
    [of ex_env_failing ex_db_delivered ex_confirm_req ?user ex_order "''o1''" "[]" connection_lost
        ex_approve_req ?admin ex_B ?shop connection_lost]
  from both c1 c2 c3 c4 c5 c6 c7
  have confirm: "put_confirm ex_env_failing ex_db_delivered ex_confirm_req =
        (errorHandler connection_lost,
         ex_db_delivered\<lparr>orders := map (\<lambda>row. if o_id row = param_id ex_confirm_req
                                  then row\<lparr>o_receiptNumber := Some (receipt_of ex_confirm_req),
                                           o_completedAt := Some (now_iso ex_confirm_req),
                                           o_status := ''completed''\<rparr>
                                  else row) (orders ex_db_delivered)\<rparr>)"
    by blast
  from both a1 a2 a3 c7
  have approve: "put_approve ex_env_failing ex_db_delivered ex_approve_req =
        (errorHandler connection_lost,
         ex_db_delivered\<lparr>products := (products ex_db_delivered)(param_id ex_approve_req \<mapsto>
            ex_B\<lparr>p_status := ''approved''\<rparr>)\<rparr>)"
    by blast
  have stored: "map (\<lambda>row. (o_status row, o_receiptNumber row))
     (orders (snd (put_confirm ex_env_failing ex_db_delivered ex_confirm_req))) =
     [(''completed'', Some ''RCP-20260115-K3J9X1Q8'')]"
    unfolding confirm receipt_of_example
    by (simp add: ex_db_delivered_def ex_order_def ex_confirm_req_def)
  have approved: "map_option p_status
      (products (snd (put_approve ex_env_failing ex_db_delivered ex_approve_req)) ''B'') = Some ''approved''"
    unfolding approve by (simp add: ex_approve_req_def ex_req_def)
  show ?thesis
    using c1 c2 a1 a2 stored approved
    by (simp add: confirm approve errorHandler_connection_lost)
qed

end
